theory Spec2Isabelle
  imports Complex_Main
begin

section \<open>Foundation settlement and tipping analysis\<close>

text \<open>
  A shallow embedding of \<^verbatim>\<open>foundation_settlement.py\<close>: the three engine functions
  \<^verbatim>\<open>calculate_settlement\<close>, \<^verbatim>\<open>check_tipping\<close>, \<^verbatim>\<open>calculate_rotation_angle\<close> and the
  loop that runs them over the load cases.

  Numbers: the script computes with Python floats. Two models of them are used.
  \<^item> Exact arithmetic: floats as \<^typ>\<open>real\<close>. This fixes which formula and which comparison
    the code evaluates; rounding, overflow to infinity and NaN are outside it. What is kept
    of the float semantics is the one effect that changes control flow: Python's \<^verbatim>\<open>/\<close> on
    floats raises \<^verbatim>\<open>ZeroDivisionError\<close> when the divisor is zero.
  \<^item> Binary64 arithmetic: every operation is the exact one followed by rounding to the
    nearest double, ties to even, with gradual underflow (\<open>fl64\<close> below). Statements about
    the sign or the order of returned values are made in this model, because rounding
    decides them near the branch boundaries. Overflow to infinity and NaN stay outside.

  Module globals: the functions read \<^verbatim>\<open>E\<close>, \<^verbatim>\<open>L\<close> and \<^verbatim>\<open>load_case_factors\<close> from the module.
  In the model they are leading parameters of each function that reads them; the values
  the script binds to them are the constants \<open>E_src\<close>, \<open>load_case_factors_src\<close> and
  \<open>loads_src\<close>.
\<close>

subsection \<open>Errors and primitive operations\<close>

datatype py_error = ZeroDivisionError | ValueError

text \<open>Sequencing of computations that may raise: the first exception wins.\<close>

definition bind_err :: "py_error + 'a \<Rightarrow> ('a \<Rightarrow> py_error + 'b) \<Rightarrow> py_error + 'b" where
  "bind_err r k = (case r of Inl err \<Rightarrow> Inl err | Inr x \<Rightarrow> k x)"

text \<open>Python's true division \<^verbatim>\<open>a / b\<close> on floats.\<close>

definition truediv :: "real \<Rightarrow> real \<Rightarrow> py_error + real" where
  "truediv a b = (if b = 0 then Inl ZeroDivisionError else Inr (a / b))"

text \<open>\<^verbatim>\<open>d.get(k, default)\<close> on a dictionary.\<close>

definition dict_get :: "('k \<rightharpoonup> 'v) \<Rightarrow> 'k \<Rightarrow> 'v \<Rightarrow> 'v" where
  "dict_get d k dflt = (case d k of None \<Rightarrow> dflt | Some v \<Rightarrow> v)"

text \<open>\<^verbatim>\<open>numpy.degrees\<close>: radians to degrees.\<close>

definition degrees :: "real \<Rightarrow> real" where
  "degrees x = x * 180 / pi"

subsection \<open>Module constants\<close>

definition E_src :: real where
  "E_src = 20000"

definition load_case_factors_src :: "string \<rightharpoonup> real" where
  "load_case_factors_src =
     [''Crane Operation'' \<mapsto> 1.25,
      ''Storm Rear'' \<mapsto> 1.05,
      ''Storm Front'' \<mapsto> 1.02,
      ''During Assembly'' \<mapsto> 1.3]"

text \<open>
  \<^verbatim>\<open>loads\<close> is iterated with \<^verbatim>\<open>.items()\<close>, in insertion order: an association list.
\<close>

definition loads_src :: "(string \<times> real list) list" where
  "loads_src =
     [(''Crane Operation'', [5681.0, 65.0, 2975.2]),
      (''Storm Rear'', [6380.0, 150.0, 2925.2]),
      (''Storm Front'', [6980.0, 100.0, 2925.2]),
      (''During Assembly'', [3980.0, 50.0, 2705.2])]"

subsection \<open>The engine functions\<close>

text \<open>
  \<^verbatim>\<open>calculate_settlement(M, H, V, B, case)\<close>, reading the globals \<^verbatim>\<open>E\<close>, \<^verbatim>\<open>L\<close> and
  \<^verbatim>\<open>load_case_factors\<close>. The divisions are in the order Python evaluates them. The
  divisor \<^verbatim>\<open>6\<close> of \<^verbatim>\<open>B/6\<close> is a non-zero literal, so that division cannot raise.
  The result is the tuple \<^verbatim>\<open>(S, sigma_max, sigma_min, e)\<close>.
\<close>

definition calculate_settlement ::
  "real \<Rightarrow> real \<Rightarrow> (string \<rightharpoonup> real) \<Rightarrow> real \<Rightarrow> real \<Rightarrow> real \<Rightarrow> real \<Rightarrow> string
     \<Rightarrow> py_error + (real \<times> real \<times> real \<times> real)" where
  "calculate_settlement E L load_case_factors M H V B case_name =
     bind_err (truediv M V) (\<lambda>e.
     let f_correction = dict_get load_case_factors case_name 1.0 in
     bind_err
       (if e \<le> B / 6 then
          bind_err (truediv V (B * L)) (\<lambda>p.
          bind_err (truediv (6 * e) B) (\<lambda>r.
          let sigma_max = p * (1 + r) in
          bind_err (truediv V (B * L)) (\<lambda>p'.
          bind_err (truediv (6 * e) B) (\<lambda>r'.
          let sigma_min = p' * (1 - r') in
          Inr (sigma_max, sigma_min)))))
        else
          bind_err (truediv (2 * V) (B * L)) (\<lambda>sigma_max.
          Inr (sigma_max, 0)))
       (\<lambda>(sigma_max, sigma_min).
     bind_err (truediv (sigma_max * B * f_correction) E) (\<lambda>S.
     Inr (S, sigma_max, sigma_min, e))))"

text \<open>\<^verbatim>\<open>check_tipping(e, B)\<close>: the verdict is one of two strings.\<close>

definition check_tipping :: "real \<Rightarrow> real \<Rightarrow> string" where
  "check_tipping e B = (if e > B / 3 then ''Tipping Risk: YES'' else ''Tipping Risk: NO'')"

text \<open>
  \<^verbatim>\<open>calculate_rotation_angle(M, B, case)\<close>, reading the globals \<^verbatim>\<open>E\<close> and
  \<^verbatim>\<open>load_case_factors\<close>. All operands of the division are Python floats (or the int
  \<^verbatim>\<open>E\<close>), so a zero divisor raises before \<^verbatim>\<open>numpy\<close> is reached.
\<close>

definition calculate_rotation_angle ::
  "real \<Rightarrow> (string \<rightharpoonup> real) \<Rightarrow> real \<Rightarrow> real \<Rightarrow> string \<Rightarrow> py_error + real" where
  "calculate_rotation_angle E load_case_factors M B case_name =
     (let f_correction = dict_get load_case_factors case_name 1.0 in
      bind_err (truediv M (B * E * f_correction)) (\<lambda>tan_alpha.
      let alpha = arctan tan_alpha in
      Inr (degrees alpha)))"

subsection \<open>The calculation loop\<close>

text \<open>
  The body of \<^verbatim>\<open>if st.button("Run Calculations")\<close> up to the end of the \<^verbatim>\<open>for\<close> loop.
  The state is the four accumulators. \<^verbatim>\<open>results\<close> is a string built from f-string
  renderings of the numbers; the model keeps, per case, the tuple of values that the
  f-string interpolates (\<^verbatim>\<open>case, S, sigma_max, tipping_status, alpha\<close>) instead of their
  decimal rendering.
\<close>

type_synonym result_line = "string \<times> real \<times> real \<times> string \<times> real"

record run_state =
  settlement_values :: "real list"
  eccentricity_values :: "real list"
  rotation_values :: "real list"
  results :: "result_line list"

definition init_state :: run_state where
  "init_state = \<lparr>settlement_values = [], eccentricity_values = [],
                  rotation_values = [], results = []\<rparr>"

text \<open>\<^verbatim>\<open>M, H, V = values\<close>: unpacking raises \<^verbatim>\<open>ValueError\<close> unless there are three items.\<close>

fun unpack3 :: "real list \<Rightarrow> py_error + (real \<times> real \<times> real)" where
  "unpack3 [M, H, V] = Inr (M, H, V)"
| "unpack3 _ = Inl ValueError"

text \<open>
  One iteration. Every statement that can raise comes before the first update of an
  accumulator, so an iteration either raises and leaves the accumulators as they were,
  or extends all four.
\<close>

definition loop_body ::
  "real \<Rightarrow> real \<Rightarrow> (string \<rightharpoonup> real) \<Rightarrow> real \<Rightarrow> run_state \<Rightarrow> string \<times> real list
     \<Rightarrow> py_error + run_state" where
  "loop_body E L load_case_factors B st item =
     (case item of (case_name, vals) \<Rightarrow>
      bind_err (unpack3 vals) (\<lambda>(M, H, V).
      bind_err (calculate_settlement E L load_case_factors M H V B case_name)
        (\<lambda>(S, sigma_max, sigma_min, e).
      let tipping_status = check_tipping e B in
      bind_err (calculate_rotation_angle E load_case_factors M B case_name) (\<lambda>alpha.
      Inr (st\<lparr>results := results st @ [(case_name, S, sigma_max, tipping_status, alpha)],
              settlement_values := settlement_values st @ [S],
              eccentricity_values := eccentricity_values st @ [e],
              rotation_values := rotation_values st @ [alpha]\<rparr>)))))"

text \<open>
  The loop. An exception leaves the loop at once; the result is the state of the
  accumulators at that moment together with the exception, or with \<open>None\<close> when every
  case was processed.
\<close>

fun run_loop ::
  "real \<Rightarrow> real \<Rightarrow> (string \<rightharpoonup> real) \<Rightarrow> real \<Rightarrow> run_state \<Rightarrow> (string \<times> real list) list
     \<Rightarrow> run_state \<times> py_error option" where
  "run_loop E L load_case_factors B st [] = (st, None)"
| "run_loop E L load_case_factors B st (item # rest) =
     (case loop_body E L load_case_factors B st item of
        Inl err \<Rightarrow> (st, Some err)
      | Inr st' \<Rightarrow> run_loop E L load_case_factors B st' rest)"

text \<open>
  The whole run, from the globals in force when the button is pressed. The footing depth
  \<^verbatim>\<open>H\<close> read from the input widget is a parameter here, and it is not used: the loop
  rebinds the name \<^verbatim>\<open>H\<close> to each case's horizontal force before anything reads it.
\<close>

definition run_calculations ::
  "real \<Rightarrow> (string \<rightharpoonup> real) \<Rightarrow> real \<Rightarrow> real \<Rightarrow> real \<Rightarrow> (string \<times> real list) list
     \<Rightarrow> run_state \<times> py_error option" where
  "run_calculations E load_case_factors L B H loads =
     run_loop E L load_case_factors B init_state loads"

text \<open>
  A load case that one iteration can compute once the geometry and \<open>E\<close> are non-zero:
  three values, a non-zero vertical force and a non-zero correction factor.
\<close>

fun computable_case :: "(string \<rightharpoonup> real) \<Rightarrow> string \<times> real list \<Rightarrow> bool" where
  "computable_case load_case_factors (c, [M, H, V]) =
     (V \<noteq> 0 \<and> dict_get load_case_factors c 1 \<noteq> 0)"
| "computable_case load_case_factors _ = False"

subsection \<open>Binary64 arithmetic\<close>

text \<open>
  Rounding of an exact result to a double. \<open>rhe\<close> rounds a real to the nearest integer,
  ties to the even one. \<open>ulp_exp x\<close> is the exponent of the unit in the last place of the
  doubles around \<open>x\<close>: 52 below the binary exponent of \<open>x\<close> (53 significant bits), and never
  below -1074 (subnormals). \<open>fl64\<close> rounds to that grid. The exponent has no upper bound
  here: a result beyond the largest double is not turned into infinity.
\<close>

definition rhe :: "real \<Rightarrow> int" where
  "rhe y = (let n = \<lfloor>y\<rfloor>; d = y - of_int n in
            if d < 1 / 2 then n else if 1 / 2 < d then n + 1 else if even n then n else n + 1)"

definition ulp_exp :: "real \<Rightarrow> int" where
  "ulp_exp x = max (\<lfloor>log 2 \<bar>x\<bar>\<rfloor> - 52) (- 1074)"

definition fl64 :: "real \<Rightarrow> real" where
  "fl64 x = (if x = 0 then 0
             else of_int (rhe (x / 2 powr of_int (ulp_exp x))) * 2 powr of_int (ulp_exp x))"

text \<open>
  Python's \<^verbatim>\<open>*\<close>, \<^verbatim>\<open>+\<close>, \<^verbatim>\<open>-\<close> and \<^verbatim>\<open>/\<close> on floats. An int operand (the literals
  \<^verbatim>\<open>1\<close>, \<^verbatim>\<open>2\<close>, \<^verbatim>\<open>6\<close> and \<^verbatim>\<open>E\<close>) is converted exactly.
\<close>

definition fmul :: "real \<Rightarrow> real \<Rightarrow> real" where
  "fmul a b = fl64 (a * b)"

definition fadd :: "real \<Rightarrow> real \<Rightarrow> real" where
  "fadd a b = fl64 (a + b)"

definition fsub :: "real \<Rightarrow> real \<Rightarrow> real" where
  "fsub a b = fl64 (a - b)"

definition fdiv :: "real \<Rightarrow> real \<Rightarrow> py_error + real" where
  "fdiv a b = (if b = 0 then Inl ZeroDivisionError else Inr (fl64 (a / b)))"

text \<open>
  The correction factors as Python reads the literals: the nearest doubles.
\<close>

definition load_case_factors_f64 :: "string \<rightharpoonup> real" where
  "load_case_factors_f64 =
     [''Crane Operation'' \<mapsto> fl64 1.25,
      ''Storm Rear'' \<mapsto> fl64 1.05,
      ''Storm Front'' \<mapsto> fl64 1.02,
      ''During Assembly'' \<mapsto> fl64 1.3]"

text \<open>
  \<^verbatim>\<open>calculate_settlement\<close> again, statement by statement, with every operation rounded.
  The arguments are meant to be doubles.
\<close>

definition calculate_settlement_f64 ::
  "real \<Rightarrow> real \<Rightarrow> (string \<rightharpoonup> real) \<Rightarrow> real \<Rightarrow> real \<Rightarrow> real \<Rightarrow> real \<Rightarrow> string
     \<Rightarrow> py_error + (real \<times> real \<times> real \<times> real)" where
  "calculate_settlement_f64 E L load_case_factors M H V B case_name =
     bind_err (fdiv M V) (\<lambda>e.
     let f_correction = dict_get load_case_factors case_name 1.0 in
     bind_err
       (if e \<le> fl64 (B / 6) then
          bind_err (fdiv V (fmul B L)) (\<lambda>p.
          bind_err (fdiv (fmul 6 e) B) (\<lambda>r.
          let sigma_max = fmul p (fadd 1 r) in
          bind_err (fdiv V (fmul B L)) (\<lambda>p'.
          bind_err (fdiv (fmul 6 e) B) (\<lambda>r'.
          let sigma_min = fmul p' (fsub 1 r') in
          Inr (sigma_max, sigma_min)))))
        else
          bind_err (fdiv (fmul 2 V) (fmul B L)) (\<lambda>sigma_max.
          Inr (sigma_max, 0)))
       (\<lambda>(sigma_max, sigma_min).
     bind_err (fdiv (fmul (fmul sigma_max B) f_correction) E) (\<lambda>S.
     Inr (S, sigma_max, sigma_min, e))))"

text \<open>
  \<^verbatim>\<open>numpy.degrees\<close> multiplies by the double constant \<^verbatim>\<open>180.0 / NPY_PI\<close>, where \<^verbatim>\<open>NPY_PI\<close>
  is the double nearest to \<open>\<pi>\<close>.
\<close>

definition NPY_PI :: real where
  "NPY_PI = 884279719003555 / 2 ^ 48"

definition RAD2DEG :: real where
  "RAD2DEG = fl64 (180 / NPY_PI)"

definition degrees_f64 :: "real \<Rightarrow> real" where
  "degrees_f64 x = fmul x RAD2DEG"

text \<open>
  \<^verbatim>\<open>numpy.arctan\<close> on a double is the C library's \<^verbatim>\<open>atan\<close>. It is modelled as the
  correctly rounded arc tangent. For \<open>|x| \<ge> 2^66\<close> the arc tangent is within \<open>2^-66\<close> of
  \<open>\<pi>/2\<close> and the result is the double nearest to \<open>\<pi>/2\<close> (\<open>PIO2_f64\<close>), with the sign
  of \<open>x\<close>; no result lies beyond it. The model states both facts explicitly instead of
  deriving them from the digits of \<open>\<pi>\<close>.
\<close>

definition PIO2_f64 :: real where
  "PIO2_f64 = 884279719003555 / 2 ^ 49"

definition arctan_f64 :: "real \<Rightarrow> real" where
  "arctan_f64 x =
     (if 2 ^ 66 \<le> x then PIO2_f64
      else if x \<le> - (2 ^ 66) then - PIO2_f64
      else max (- PIO2_f64) (min PIO2_f64 (fl64 (arctan x))))"

text \<open>
  \<^verbatim>\<open>calculate_rotation_angle\<close> with every operation rounded.
\<close>

definition calculate_rotation_angle_f64 ::
  "real \<Rightarrow> (string \<rightharpoonup> real) \<Rightarrow> real \<Rightarrow> real \<Rightarrow> string \<Rightarrow> py_error + real" where
  "calculate_rotation_angle_f64 E load_case_factors M B case_name =
     (let f_correction = dict_get load_case_factors case_name 1.0 in
      bind_err (fdiv M (fmul (fmul B E) f_correction)) (\<lambda>tan_alpha.
      let alpha = arctan_f64 tan_alpha in
      Inr (degrees_f64 alpha)))"

section \<open>Properties\<close>

subsection \<open>Helper facts\<close>

lemmas eval_defs = calculate_settlement_def calculate_rotation_angle_def check_tipping_def
  truediv_def bind_err_def dict_get_def E_src_def load_case_factors_src_def Let_def

lemmas run_defs = run_calculations_def loop_body_def init_state_def loads_src_def

lemma truediv_nonzero: "b \<noteq> 0 \<Longrightarrow> truediv a b = Inr (a / b)"
  by (simp add: truediv_def)

lemma truediv_zero: "truediv a 0 = Inl ZeroDivisionError"
  by (simp add: truediv_def)

lemma bind_err_Inr: "bind_err (Inr x) k = k x"
  by (simp add: bind_err_def)

lemma bind_err_Inl: "bind_err (Inl err) k = Inl err"
  by (simp add: bind_err_def)

text \<open>
  What \<^verbatim>\<open>calculate_settlement\<close> returns when no division raises.
\<close>

lemma calculate_settlement_returns:
  assumes "V \<noteq> 0" "B \<noteq> 0" "L \<noteq> 0" "E \<noteq> 0"
  shows "calculate_settlement E L load_case_factors M H V B case_name =
     Inr ((if M / V \<le> B / 6 then V / (B * L) * (1 + 6 * (M / V) / B) else 2 * V / (B * L))
            * B * dict_get load_case_factors case_name 1 / E,
          (if M / V \<le> B / 6 then V / (B * L) * (1 + 6 * (M / V) / B) else 2 * V / (B * L)),
          (if M / V \<le> B / 6 then V / (B * L) * (1 - 6 * (M / V) / B) else 0),
          M / V)"
  using assms
  by (simp add: calculate_settlement_def truediv_nonzero bind_err_Inr Let_def)

text \<open>
  One iteration of the loop: a computable case extends all four accumulators by what the engine functions return.
\<close>

lemma loop_body_row:
  assumes "B \<noteq> 0" "L \<noteq> 0" "E \<noteq> 0" "V \<noteq> 0" "dict_get load_case_factors c 1 \<noteq> 0"
  shows "\<exists>S sigma_max sigma_min e alpha.
     calculate_settlement E L load_case_factors M H V B c = Inr (S, sigma_max, sigma_min, e) \<and>
     calculate_rotation_angle E load_case_factors M B c = Inr alpha \<and>
     loop_body E L load_case_factors B st (c, [M, H, V]) =
       Inr (st\<lparr>results := results st @ [(c, S, sigma_max, check_tipping e B, alpha)],
               settlement_values := settlement_values st @ [S],
               eccentricity_values := eccentricity_values st @ [e],
               rotation_values := rotation_values st @ [alpha]\<rparr>)"
proof -
  from calculate_settlement_returns [OF assms(4,1,2,3), of load_case_factors M H c]
  obtain S sigma_max sigma_min e where
    cs: "calculate_settlement E L load_case_factors M H V B c = Inr (S, sigma_max, sigma_min, e)"
    by blast
  have d: "B * E * dict_get load_case_factors c 1 \<noteq> 0" using assms by simp
  obtain alpha where ra: "calculate_rotation_angle E load_case_factors M B c = Inr alpha"
    by (simp add: calculate_rotation_angle_def truediv_nonzero [OF d] bind_err_Inr Let_def
        del: One_nat_def)
  have "loop_body E L load_case_factors B st (c, [M, H, V]) =
       Inr (st\<lparr>results := results st @ [(c, S, sigma_max, check_tipping e B, alpha)],
               settlement_values := settlement_values st @ [S],
               eccentricity_values := eccentricity_values st @ [e],
               rotation_values := rotation_values st @ [alpha]\<rparr>)"
    by (simp add: loop_body_def cs ra bind_err_Inr)
  with cs ra show ?thesis by blast
qed

text \<open>
  A case with \<open>V = 0\<close> raises at its first statement, \<^verbatim>\<open>e = M / V\<close>; a footing with \<open>B * L = 0\<close> raises in the first division by \<^verbatim>\<open>B * L\<close> at the latest.
\<close>

lemma loop_body_zero_V:
  "loop_body E L load_case_factors B st (c, [M, H, 0]) = Inl ZeroDivisionError"
  by (simp add: loop_body_def calculate_settlement_def truediv_zero bind_err_Inl bind_err_Inr)

lemma loop_body_geometry_zero:
  assumes "B * L = 0"
  shows "loop_body E L load_case_factors B st (c, [M, H, V]) = Inl ZeroDivisionError"
  using assms
  by (simp add: loop_body_def calculate_settlement_def truediv_def bind_err_def Let_def)

lemma computable_caseE:
  assumes "computable_case load_case_factors item"
  obtains c M H V where "item = (c, [M, H, V])" "V \<noteq> 0" "dict_get load_case_factors c 1 \<noteq> 0"
  using assms by (cases "(load_case_factors, item)" rule: computable_case.cases) simp_all

text \<open>
  The loop over a prefix of computable cases: it ends without an exception, continues on
  what follows from the state it reached, and has appended to each accumulator, case by
  case, the values the engine functions return. The state is generalised, since every
  iteration changes it.
\<close>

lemma run_loop_rows:
  assumes "B \<noteq> 0" "L \<noteq> 0" "E \<noteq> 0"
  shows "list_all (computable_case load_case_factors) pre \<Longrightarrow>
     \<exists>st' Ss es as ls.
       run_loop E L load_case_factors B st pre = (st', None) \<and>
       run_loop E L load_case_factors B st (pre @ rest) = run_loop E L load_case_factors B st' rest \<and>
       settlement_values st' = settlement_values st @ Ss \<and>
       eccentricity_values st' = eccentricity_values st @ es \<and>
       rotation_values st' = rotation_values st @ as \<and>
       results st' = results st @ ls \<and>
       length Ss = length pre \<and> length es = length pre \<and>
       length as = length pre \<and> length ls = length pre \<and>
       (\<forall>i<length pre. \<exists>c M H V S sigma_max sigma_min e alpha.
          pre ! i = (c, [M, H, V]) \<and>
          calculate_settlement E L load_case_factors M H V B c = Inr (S, sigma_max, sigma_min, e) \<and>
          calculate_rotation_angle E load_case_factors M B c = Inr alpha \<and>
          Ss ! i = S \<and> es ! i = e \<and> as ! i = alpha \<and>
          ls ! i = (c, S, sigma_max, check_tipping e B, alpha))"
proof (induction pre arbitrary: st)
  case Nil
  show ?case by simp
next
  case (Cons item pre)
  from Cons.prems have item: "computable_case load_case_factors item"
    and pre: "list_all (computable_case load_case_factors) pre" by simp_all
  from item obtain c M H V where
    it: "item = (c, [M, H, V])" and nz: "V \<noteq> 0" "dict_get load_case_factors c 1 \<noteq> 0"
    by (rule computable_caseE)
  from loop_body_row [OF assms nz, of M H st]
  obtain S sigma_max sigma_min e alpha where
    cs: "calculate_settlement E L load_case_factors M H V B c = Inr (S, sigma_max, sigma_min, e)"
    and ra: "calculate_rotation_angle E load_case_factors M B c = Inr alpha"
    and lb: "loop_body E L load_case_factors B st item =
       Inr (st\<lparr>results := results st @ [(c, S, sigma_max, check_tipping e B, alpha)],
               settlement_values := settlement_values st @ [S],
               eccentricity_values := eccentricity_values st @ [e],
               rotation_values := rotation_values st @ [alpha]\<rparr>)"
    unfolding it by blast
  let ?line = "(c, S, sigma_max, check_tipping e B, alpha)"
  let ?st1 = "st\<lparr>results := results st @ [?line],
               settlement_values := settlement_values st @ [S],
               eccentricity_values := eccentricity_values st @ [e],
               rotation_values := rotation_values st @ [alpha]\<rparr>"
  let ?row = "\<lambda>Ss es as ls xs i. \<exists>c M H V S sigma_max sigma_min e alpha.
          xs ! i = (c, [M, H, V]) \<and>
          calculate_settlement E L load_case_factors M H V B c = Inr (S, sigma_max, sigma_min, e) \<and>
          calculate_rotation_angle E load_case_factors M B c = Inr alpha \<and>
          Ss ! i = S \<and> es ! i = e \<and> as ! i = alpha \<and>
          ls ! i = (c, S, sigma_max, check_tipping e B, alpha)"
  from Cons.IH [OF pre, of ?st1] obtain st' Ss es as ls where
    ih: "run_loop E L load_case_factors B ?st1 pre = (st', None)"
      "run_loop E L load_case_factors B ?st1 (pre @ rest) = run_loop E L load_case_factors B st' rest"
      "settlement_values st' = settlement_values ?st1 @ Ss"
      "eccentricity_values st' = eccentricity_values ?st1 @ es"
      "rotation_values st' = rotation_values ?st1 @ as"
      "results st' = results ?st1 @ ls"
      "length Ss = length pre" "length es = length pre"
      "length as = length pre" "length ls = length pre"
    and rows: "\<forall>i<length pre. ?row Ss es as ls pre i"
    by blast
  have head: "?row (S # Ss) (e # es) (alpha # as) (?line # ls) (item # pre) 0"
    using cs ra by (simp add: it)
  have tail: "?row (S # Ss) (e # es) (alpha # as) (?line # ls) (item # pre) (Suc j)"
    if "j < length pre" for j
    using rows that by simp
  have all: "\<forall>i<length (item # pre). ?row (S # Ss) (e # es) (alpha # as) (?line # ls) (item # pre) i"
  proof (intro allI impI)
    fix i assume "i < length (item # pre)"
    then show "?row (S # Ss) (e # es) (alpha # as) (?line # ls) (item # pre) i"
      using head tail by (cases i) simp_all
  qed
  have "run_loop E L load_case_factors B st (item # pre) = (st', None)"
    by (simp add: lb ih(1))
  moreover have "run_loop E L load_case_factors B st ((item # pre) @ rest) =
      run_loop E L load_case_factors B st' rest"
    by (simp add: lb ih(2))
  moreover have "settlement_values st' = settlement_values st @ (S # Ss)"
    "eccentricity_values st' = eccentricity_values st @ (e # es)"
    "rotation_values st' = rotation_values st @ (alpha # as)"
    "results st' = results st @ (?line # ls)"
    using ih(3-6) by simp_all
  moreover have "length (S # Ss) = length (item # pre)" "length (e # es) = length (item # pre)"
    "length (alpha # as) = length (item # pre)" "length (?line # ls) = length (item # pre)"
    using ih(7-10) by simp_all
  ultimately show ?case using all by blast
qed

subsection \<open>Rounding to a double\<close>

lemma rhe_of_int: "rhe (of_int n) = n"
  by (simp add: rhe_def)

lemma rhe_numeral: "rhe (numeral n) = numeral n"
  using rhe_of_int [of "numeral n"] by simp

lemma rhe_bounds: "\<lfloor>y\<rfloor> \<le> rhe y \<and> rhe y \<le> \<lfloor>y\<rfloor> + 1"
  by (simp add: rhe_def Let_def)

lemma rhe_mono: assumes "x \<le> y" shows "rhe x \<le> rhe y"
proof (cases "\<lfloor>x\<rfloor> = \<lfloor>y\<rfloor>")
  case True
  with assms show ?thesis by (auto simp: rhe_def Let_def)
next
  case False
  with assms have "\<lfloor>x\<rfloor> < \<lfloor>y\<rfloor>" by (simp add: floor_mono order.strict_iff_order)
  with rhe_bounds [of x] rhe_bounds [of y] show ?thesis by linarith
qed

lemma rhe_minus: "rhe (- y) = - rhe y"
proof (cases "y = of_int \<lfloor>y\<rfloor>")
  case True
  then obtain n where "y = of_int n" ..
  then have "- y = of_int (- n)" by simp
  then show ?thesis using \<open>y = of_int n\<close> by (simp only: rhe_of_int)
next
  case False
  then have ni: "y \<notin> \<int>" by (metis Ints_cases of_int_floor_cancel)
  have f: "\<lfloor>- y\<rfloor> = - \<lfloor>y\<rfloor> - 1" using ni False by (simp add: floor_minus ceiling_altdef)
  have d: "0 < y - of_int \<lfloor>y\<rfloor>" using False by (simp add: less_le)
  show ?thesis using d by (auto simp: rhe_def Let_def f)
qed

lemma ulp_exp_minus: "ulp_exp (- x) = ulp_exp x"
  by (simp add: ulp_exp_def)

lemma fl64_0: "fl64 0 = 0"
  by (simp add: fl64_def)

lemma fl64_minus: "fl64 (- x) = - fl64 x"
  by (simp add: fl64_def ulp_exp_minus rhe_minus)

lemma pow2_pos: "0 < 2 powr (of_int k :: real)"
  by simp

text \<open>
  Evaluation of \<open>fl64\<close> at a number whose binade is known.
\<close>

lemma ulp_exp_eqI:
  assumes "2 powr of_int (k + 52) \<le> \<bar>x\<bar>" "\<bar>x\<bar> < 2 powr of_int (k + 53)" "- 1074 \<le> k"
  shows "ulp_exp x = k"
proof -
  have x: "0 < \<bar>x\<bar>" using assms(1) pow2_pos [of "k + 52"] by linarith
  have "\<lfloor>log 2 \<bar>x\<bar>\<rfloor> = k + 52"
    using assms(1,2) by (subst floor_log_eq_powr_iff [OF x]) (simp_all add: add.commute add.left_commute)
  then show ?thesis using assms(3) by (simp add: ulp_exp_def)
qed

lemma ulp_exp_subnormal:
  assumes "x \<noteq> 0" "\<bar>x\<bar> < 2 powr of_int (- 1021)"
  shows "ulp_exp x = - 1074"
proof -
  have x: "0 < \<bar>x\<bar>" using assms(1) by simp
  have "log 2 \<bar>x\<bar> < of_int (- 1021)"
    using assms(2) x by (simp add: log_less_iff del: of_int_minus)
  then have "\<lfloor>log 2 \<bar>x\<bar>\<rfloor> < - 1021" by (simp only: floor_less_iff)
  then have "\<lfloor>log 2 \<bar>x\<bar>\<rfloor> - 52 \<le> - 1074" by linarith
  then show ?thesis unfolding ulp_exp_def by (rule max_absorb2)
qed

lemma fl64_eqI:
  assumes "2 powr of_int (k + 52) \<le> \<bar>x\<bar>" "\<bar>x\<bar> < 2 powr of_int (k + 53)" "- 1074 \<le> k"
  shows "fl64 x = of_int (rhe (x / 2 powr of_int k)) * 2 powr of_int k"
proof -
  have "x \<noteq> 0" using assms(1) pow2_pos [of "k + 52"] by auto
  then show ?thesis by (simp add: fl64_def ulp_exp_eqI [OF assms])
qed

lemma fl64_subnormal:
  assumes "x \<noteq> 0" "\<bar>x\<bar> < 2 powr of_int (- 1021)"
  shows "fl64 x = of_int (rhe (x / 2 powr of_int (- 1074))) * 2 powr of_int (- 1074)"
  using assms(1) by (simp add: fl64_def ulp_exp_subnormal [OF assms])

text \<open>
  Rounding is monotone. Within a binade it is the monotonicity of \<open>rhe\<close>; across binades
  the rounded values are separated by the power of two between them.
\<close>

lemma fl64_nonneg: assumes "0 \<le> x" shows "0 \<le> fl64 x"
proof (cases "x = 0")
  case True then show ?thesis by (simp add: fl64_0)
next
  case False
  have "0 \<le> x / 2 powr of_int (ulp_exp x)" using assms by simp
  then have "0 \<le> \<lfloor>x / 2 powr of_int (ulp_exp x)\<rfloor>" by simp
  with rhe_bounds [of "x / 2 powr of_int (ulp_exp x)"]
  have "0 \<le> rhe (x / 2 powr of_int (ulp_exp x))" by linarith
  then show ?thesis using False by (simp add: fl64_def)
qed

lemma ulp_exp_mono: assumes "0 < x" "x \<le> y" shows "ulp_exp x \<le> ulp_exp y"
proof -
  have "log 2 \<bar>x\<bar> \<le> log 2 \<bar>y\<bar>" using assms by simp
  then have "\<lfloor>log 2 \<bar>x\<bar>\<rfloor> \<le> \<lfloor>log 2 \<bar>y\<bar>\<rfloor>" by (rule floor_mono)
  then show ?thesis unfolding ulp_exp_def by linarith
qed

lemma below_next_binade: assumes "0 < x" shows "x < 2 powr of_int (ulp_exp x + 53)"
proof -
  have "log 2 x < of_int (\<lfloor>log 2 x\<rfloor> + 1)" by linarith
  also have "\<dots> \<le> of_int (ulp_exp x + 53)"
    using assms unfolding ulp_exp_def by simp
  finally have "log 2 x < of_int (ulp_exp x + 53)" .
  then show ?thesis using assms by (simp only: less_powr_iff [symmetric])
qed

lemma above_binade:
  assumes "0 < x" "- 1074 < ulp_exp x" shows "2 powr of_int (ulp_exp x + 52) \<le> x"
proof -
  have "ulp_exp x = \<lfloor>log 2 x\<rfloor> - 52" using assms unfolding ulp_exp_def by simp
  then have "of_int (ulp_exp x + 52) \<le> log 2 x" by simp
  then show ?thesis using assms(1) by (simp only: powr_le_iff [symmetric])
qed

lemma pow2_split: "2 powr of_int (k + n) = 2 powr of_int n * 2 powr (of_int k :: real)"
  by (simp add: powr_add mult.commute)

lemma fl64_le_next_binade:
  assumes "0 < x" shows "fl64 x \<le> 2 powr of_int (ulp_exp x + 53)"
proof -
  let ?q = "2 powr (of_int (ulp_exp x) :: real)"
  have q: "0 < ?q" by simp
  have "x < 2 powr of_int 53 * ?q" using below_next_binade [OF assms] by (simp only: pow2_split)
  then have "x / ?q \<le> 2 powr of_int 53" using q by (simp add: divide_le_eq)
  then have "rhe (x / ?q) \<le> rhe (2 powr of_int 53)" by (rule rhe_mono)
  then have "rhe (x / ?q) \<le> 2 ^ 53" by (simp add: rhe_numeral)
  then have "(of_int (rhe (x / ?q)) :: real) \<le> of_int (2 ^ 53)" by (simp only: of_int_le_iff)
  then have "of_int (rhe (x / ?q)) * ?q \<le> 2 powr of_int 53 * ?q"
    using q by (simp add: powr_real_of_int)
  then show ?thesis using assms by (simp only: pow2_split fl64_def) simp
qed

lemma fl64_ge_binade:
  assumes "0 < x" "- 1074 < ulp_exp x" shows "2 powr of_int (ulp_exp x + 52) \<le> fl64 x"
proof -
  let ?q = "2 powr (of_int (ulp_exp x) :: real)"
  have q: "0 < ?q" by simp
  have "2 powr of_int 52 * ?q \<le> x" using above_binade [OF assms] by (simp only: pow2_split)
  then have "2 powr of_int 52 \<le> x / ?q" using q by (simp add: le_divide_eq)
  then have "rhe (2 powr of_int 52) \<le> rhe (x / ?q)" by (rule rhe_mono)
  then have "2 ^ 52 \<le> rhe (x / ?q)" by (simp add: rhe_numeral)
  then have "(of_int (2 ^ 52) :: real) \<le> of_int (rhe (x / ?q))" by (simp only: of_int_le_iff)
  then have "2 powr of_int 52 * ?q \<le> of_int (rhe (x / ?q)) * ?q"
    using q by (simp add: powr_real_of_int)
  then show ?thesis using assms by (simp only: pow2_split fl64_def) simp
qed

lemma fl64_mono_pos: assumes "0 < x" "x \<le> y" shows "fl64 x \<le> fl64 y"
proof (cases "ulp_exp x = ulp_exp y")
  case True
  let ?q = "2 powr (of_int (ulp_exp y) :: real)"
  have "x / ?q \<le> y / ?q" using assms by (simp add: divide_right_mono)
  then have "rhe (x / ?q) \<le> rhe (y / ?q)" by (rule rhe_mono)
  then have "of_int (rhe (x / ?q)) * ?q \<le> of_int (rhe (y / ?q)) * ?q" by simp
  then show ?thesis using assms True by (simp add: fl64_def)
next
  case False
  with ulp_exp_mono [OF assms] have lt: "ulp_exp x < ulp_exp y" by simp
  have y: "0 < y" using assms by simp
  have "- 1074 \<le> ulp_exp x" by (simp add: ulp_exp_def)
  with lt have sub: "- 1074 < ulp_exp y" by simp
  have "fl64 x \<le> 2 powr of_int (ulp_exp x + 53)" by (rule fl64_le_next_binade [OF assms(1)])
  also have "\<dots> \<le> 2 powr of_int (ulp_exp y + 52)"
    using lt by (simp only: powr_le_cancel_iff of_int_le_iff)
  also have "\<dots> \<le> fl64 y" by (rule fl64_ge_binade [OF y sub])
  finally show ?thesis .
qed

lemma fl64_mono: assumes "x \<le> y" shows "fl64 x \<le> fl64 y"
proof -
  consider "0 < x" | "x \<le> 0" "0 \<le> y" | "y < 0" by linarith
  then show ?thesis
  proof cases
    case 1
    then show ?thesis using assms by (rule fl64_mono_pos)
  next
    case 2
    have "fl64 x = - fl64 (- x)" by (simp add: fl64_minus)
    moreover have "0 \<le> fl64 (- x)" using 2(1) by (intro fl64_nonneg) simp
    moreover have "0 \<le> fl64 y" using 2(2) by (rule fl64_nonneg)
    ultimately show ?thesis by linarith
  next
    case 3
    have "fl64 (- y) \<le> fl64 (- x)" using 3 assms by (intro fl64_mono_pos) simp_all
    then show ?thesis by (simp add: fl64_minus)
  qed
qed

lemma fl64_nonpos: "x \<le> 0 \<Longrightarrow> fl64 x \<le> 0"
  using fl64_mono [of x 0] by (simp add: fl64_0)

lemma fl64_1: "fl64 1 = 1"
  by (subst fl64_eqI [where k = "- 52"]) (simp_all add: rhe_def powr_neg_numeral)

lemma fl64_m1: "fl64 (- 1) = - 1"
  using fl64_minus [of 1] by (simp only: fl64_1)

lemma fl64_prod_nonneg: "0 \<le> a \<Longrightarrow> 0 \<le> b \<Longrightarrow> 0 \<le> fl64 (a * b)"
  by (intro fl64_nonneg mult_nonneg_nonneg)

lemma fl64_prod_nonpos: "0 \<le> a \<Longrightarrow> b \<le> 0 \<Longrightarrow> fl64 (a * b) \<le> 0"
  by (intro fl64_nonpos mult_nonneg_nonpos)

lemma fl64_decimals:
  "fl64 (5 / 4) = 5 / 2 ^ 2"
  "fl64 (21 / 20) = 4728779608739021 / 2 ^ 52"
  "fl64 (51 / 50) = 2296835809958953 / 2 ^ 51"
  "fl64 (13 / 10) = 5854679515581645 / 2 ^ 52"
  by (subst fl64_eqI [where k = "- 52"], simp_all add: rhe_def Let_def powr_neg_numeral)+

subsection \<open>The engine functions in doubles\<close>

text \<open>
  What \<open>calculate_settlement_f64\<close> returns when no division raises.
\<close>

lemma calculate_settlement_f64_returns:
  assumes "V \<noteq> 0" "B \<noteq> 0" "fl64 (B * L) \<noteq> 0" "E \<noteq> 0"
  shows "calculate_settlement_f64 E L load_case_factors M H V B case_name =
     Inr (fl64 (fl64 (fl64 ((if fl64 (M / V) \<le> fl64 (B / 6)
              then fl64 (fl64 (V / fl64 (B * L)) * fl64 (1 + fl64 (fl64 (6 * fl64 (M / V)) / B)))
              else fl64 (fl64 (2 * V) / fl64 (B * L))) * B)
            * dict_get load_case_factors case_name 1) / E),
          (if fl64 (M / V) \<le> fl64 (B / 6)
           then fl64 (fl64 (V / fl64 (B * L)) * fl64 (1 + fl64 (fl64 (6 * fl64 (M / V)) / B)))
           else fl64 (fl64 (2 * V) / fl64 (B * L))),
          (if fl64 (M / V) \<le> fl64 (B / 6)
           then fl64 (fl64 (V / fl64 (B * L)) * fl64 (1 - fl64 (fl64 (6 * fl64 (M / V)) / B)))
           else 0),
          fl64 (M / V))"
  using assms
  by (simp add: calculate_settlement_f64_def fdiv_def fmul_def fadd_def fsub_def bind_err_Inr Let_def)

text \<open>
  The same, given the value of every intermediate result: used to evaluate concrete inputs.
\<close>

lemma settle_eval_linear:
  assumes "V \<noteq> 0" "B \<noteq> 0" "E \<noteq> 0" "fl64 (M / V) = e"
    and "fl64 (B / 6) = b6" "e \<le> b6" "fl64 (B * L) = bl" "bl \<noteq> 0"
    and "fl64 (V / bl) = p" "fl64 (6 * e) = e6" "fl64 (e6 / B) = r"
    and "fl64 (1 + r) = t1" "fl64 (p * t1) = sigma_max"
    and "fl64 (1 - r) = t2" "fl64 (p * t2) = sigma_min"
    and "dict_get load_case_factors case_name 1 = f"
    and "fl64 (sigma_max * B) = s1" "fl64 (s1 * f) = s2" "fl64 (s2 / E) = S"
  shows "calculate_settlement_f64 E L load_case_factors M H V B case_name
    = Inr (S, sigma_max, sigma_min, e)"
proof -
  have nz: "fl64 (B * L) \<noteq> 0" using assms(7,8) by simp
  show ?thesis
    unfolding calculate_settlement_f64_returns [OF assms(1,2) nz assms(3)]
    using assms(6) by (simp add: assms(4,5,7) assms(9-19))
qed

lemma settle_eval_triangular:
  assumes "V \<noteq> 0" "B \<noteq> 0" "E \<noteq> 0" "fl64 (M / V) = e"
    and "fl64 (B / 6) = b6" "\<not> e \<le> b6" "fl64 (B * L) = bl" "bl \<noteq> 0"
    and "fl64 (2 * V) = v2" "fl64 (v2 / bl) = sigma_max"
    and "dict_get load_case_factors case_name 1 = f"
    and "fl64 (sigma_max * B) = s1" "fl64 (s1 * f) = s2" "fl64 (s2 / E) = S"
  shows "calculate_settlement_f64 E L load_case_factors M H V B case_name
    = Inr (S, sigma_max, 0, e)"
proof -
  have nz: "fl64 (B * L) \<noteq> 0" using assms(7,8) by simp
  show ?thesis
    unfolding calculate_settlement_f64_returns [OF assms(1,2) nz assms(3)]
    using assms(6) by (simp add: assms(4,5,7) assms(9-14))
qed

text \<open>
  The rounded ratio \<open>6e/B\<close> against the thresholds 1 and -1, for a width that is a double.
\<close>

lemma ratio_le_1:
  assumes "0 < B" "fl64 B = B" "6 * e \<le> B"
  shows "fl64 (fl64 (6 * e) / B) \<le> 1"
proof -
  have "fl64 (6 * e) \<le> B" using fl64_mono [OF assms(3)] by (simp only: assms(2))
  then have "fl64 (6 * e) / B \<le> 1" using assms(1) by (simp add: divide_le_eq)
  then show ?thesis using fl64_mono [of "fl64 (6 * e) / B" 1] by (simp only: fl64_1)
qed

lemma ratio_ge_m1:
  assumes "0 < B" "fl64 B = B" "- B \<le> 6 * e"
  shows "- 1 \<le> fl64 (fl64 (6 * e) / B)"
proof -
  have "- B \<le> fl64 (6 * e)" using fl64_mono [OF assms(3)] by (simp only: fl64_minus assms(2))
  then have "- 1 \<le> fl64 (6 * e) / B" using assms(1) by (simp add: le_divide_eq)
  then show ?thesis using fl64_mono [of "- 1" "fl64 (6 * e) / B"] by (simp only: fl64_m1)
qed

lemma ratio_le_m1:
  assumes "0 < B" "fl64 B = B" "6 * e \<le> - B"
  shows "fl64 (fl64 (6 * e) / B) \<le> - 1"
proof -
  have "fl64 (6 * e) \<le> - B" using fl64_mono [OF assms(3)] by (simp only: fl64_minus assms(2))
  then have "fl64 (6 * e) / B \<le> - 1" using assms(1) by (simp add: divide_le_eq)
  then show ?thesis using fl64_mono [of "fl64 (6 * e) / B" "- 1"] by (simp only: fl64_m1)
qed

lemma mean_pressure_nonneg:
  assumes "0 \<le> V" "0 < B" "0 < L"
  shows "0 \<le> fl64 (V / fl64 (B * L))"
proof -
  have "0 \<le> fl64 (B * L)" using assms by (intro fl64_nonneg) simp
  then have "0 \<le> V / fl64 (B * L)" using assms(1) by simp
  then show ?thesis by (rule fl64_nonneg)
qed

text \<open>
  The last line of the function, \<^verbatim>\<open>S = (sigma_max * B * f_correction) / E\<close>, in doubles.
\<close>

lemma settlement_mono_factor:
  assumes "0 < B" "0 < E" "f1 \<le> f2"
  shows "0 \<le> sigma_max \<Longrightarrow>
           fl64 (fl64 (fl64 (sigma_max * B) * f1) / E) \<le> fl64 (fl64 (fl64 (sigma_max * B) * f2) / E)"
    and "sigma_max \<le> 0 \<Longrightarrow>
           fl64 (fl64 (fl64 (sigma_max * B) * f2) / E) \<le> fl64 (fl64 (fl64 (sigma_max * B) * f1) / E)"
proof -
  { assume "0 \<le> sigma_max"
    then have "0 \<le> fl64 (sigma_max * B)" using assms(1) by (intro fl64_prod_nonneg) simp_all
    then have "fl64 (sigma_max * B) * f1 \<le> fl64 (sigma_max * B) * f2"
      using assms(3) by (rule mult_left_mono [rotated])
    then have "fl64 (fl64 (sigma_max * B) * f1) \<le> fl64 (fl64 (sigma_max * B) * f2)"
      by (rule fl64_mono)
    then have "fl64 (fl64 (sigma_max * B) * f1) / E \<le> fl64 (fl64 (sigma_max * B) * f2) / E"
      using assms(2) by (simp add: divide_right_mono)
    then show "fl64 (fl64 (fl64 (sigma_max * B) * f1) / E)
        \<le> fl64 (fl64 (fl64 (sigma_max * B) * f2) / E)"
      by (rule fl64_mono) }
  { assume "sigma_max \<le> 0"
    then have "fl64 (sigma_max * B) \<le> 0" using assms(1)
      by (intro fl64_nonpos mult_nonpos_nonneg) simp_all
    then have "fl64 (sigma_max * B) * f2 \<le> fl64 (sigma_max * B) * f1"
      using assms(3) by (rule mult_left_mono_neg [rotated])
    then have "fl64 (fl64 (sigma_max * B) * f2) \<le> fl64 (fl64 (sigma_max * B) * f1)"
      by (rule fl64_mono)
    then have "fl64 (fl64 (sigma_max * B) * f2) / E \<le> fl64 (fl64 (sigma_max * B) * f1) / E"
      using assms(2) by (simp add: divide_right_mono)
    then show "fl64 (fl64 (fl64 (sigma_max * B) * f2) / E)
        \<le> fl64 (fl64 (fl64 (sigma_max * B) * f1) / E)"
      by (rule fl64_mono) }
qed

lemma settlement_nonpos:
  assumes "0 < B" "0 < E" "0 \<le> f" "sigma_max \<le> 0"
  shows "fl64 (fl64 (fl64 (sigma_max * B) * f) / E) \<le> 0"
proof -
  have "fl64 (sigma_max * B) \<le> 0" using assms(1,4)
    by (intro fl64_nonpos mult_nonpos_nonneg) simp_all
  then have "fl64 (sigma_max * B) * f \<le> 0" using assms(3)
    by (rule mult_nonpos_nonneg)
  then have "fl64 (fl64 (sigma_max * B) * f) \<le> 0" by (rule fl64_nonpos)
  then have "fl64 (fl64 (sigma_max * B) * f) / E \<le> 0" using assms(2)
    by (simp add: divide_le_0_iff)
  then show ?thesis by (rule fl64_nonpos)
qed

text \<open>
  Degrees and arc tangent in doubles: values, monotonicity, signs.
\<close>

lemma RAD2DEG_value: "RAD2DEG = 1007958012753983 / 2 ^ 44"
  unfolding RAD2DEG_def NPY_PI_def
  by (subst fl64_eqI [where k = "- 47"]) (simp_all add: rhe_def Let_def powr_neg_numeral)

lemma degrees_f64_quarter_turn: "degrees_f64 PIO2_f64 = 90"
  unfolding degrees_f64_def fmul_def RAD2DEG_value PIO2_f64_def
  by (subst fl64_eqI [where k = "- 46"]) (simp_all add: rhe_def Let_def powr_neg_numeral)

lemma degrees_f64_mono: "x \<le> y \<Longrightarrow> degrees_f64 x \<le> degrees_f64 y"
  unfolding degrees_f64_def fmul_def RAD2DEG_value
  by (intro fl64_mono mult_right_mono) simp_all

lemma degrees_f64_0: "degrees_f64 0 = 0"
  by (simp add: degrees_f64_def fmul_def fl64_0)

lemma degrees_f64_minus: "degrees_f64 (- x) = - degrees_f64 x"
  by (simp add: degrees_f64_def fmul_def fl64_minus)

lemma arctan_f64_0: "arctan_f64 0 = 0"
  by (simp add: arctan_f64_def fl64_0 PIO2_f64_def)

lemma arctan_f64_bounds: "- PIO2_f64 \<le> arctan_f64 x \<and> arctan_f64 x \<le> PIO2_f64"
proof -
  have "0 \<le> PIO2_f64" by (simp add: PIO2_f64_def)
  then show ?thesis by (auto simp: arctan_f64_def)
qed

lemma arctan_f64_nonneg: assumes "0 \<le> x" shows "0 \<le> arctan_f64 x"
proof -
  have "0 \<le> fl64 (arctan x)" using assms by (intro fl64_nonneg) (simp add: zero_le_arctan_iff)
  then show ?thesis using assms by (simp add: arctan_f64_def PIO2_f64_def)
qed

lemma arctan_f64_nonpos: assumes "x \<le> 0" shows "arctan_f64 x \<le> 0"
proof -
  have "fl64 (arctan x) \<le> 0" using assms by (intro fl64_nonpos) (simp add: arctan_le_zero_iff)
  then show ?thesis using assms by (simp add: arctan_f64_def PIO2_f64_def)
qed

lemma arctan_f64_huge: "2 ^ 66 \<le> x \<Longrightarrow> arctan_f64 x = PIO2_f64"
  by (simp add: arctan_f64_def)

lemma rotate_eval:
  assumes "dict_get load_case_factors case_name 1 = f"
    and "fl64 (B * E) = be" "fl64 (be * f) = d" "d \<noteq> 0" "fl64 (M / d) = t"
  shows "calculate_rotation_angle_f64 E load_case_factors M B case_name
    = Inr (degrees_f64 (arctan_f64 t))"
  using assms(4)
  by (simp add: calculate_rotation_angle_f64_def fdiv_def fmul_def bind_err_def Let_def assms(1,2,3,5))

lemma crane_divisor_f64:
  "dict_get load_case_factors_f64 ''Crane Operation'' 1 = 5 / 4"
  "fl64 (1 * E_src) = 20000"
  "fl64 (20000 * (5 / 4)) = 25000"
proof -
  show "dict_get load_case_factors_f64 ''Crane Operation'' 1 = 5 / 4"
    by (simp add: dict_get_def load_case_factors_f64_def fl64_decimals)
  show "fl64 (1 * E_src) = 20000"
    unfolding E_src_def
    by (subst fl64_eqI [where k = "- 38"]) (simp_all add: rhe_def Let_def powr_neg_numeral)
  show "fl64 (20000 * (5 / 4)) = 25000"
    by (subst fl64_eqI [where k = "- 38"]) (simp_all add: rhe_def Let_def powr_neg_numeral)
qed

subsection \<open>Edge pressures and settlement\<close>

text \<open>
  C1. For every input with \<open>V \<noteq> 0\<close> and \<open>B, L > 0\<close>, \<^verbatim>\<open>calculate_settlement\<close> sets
  \<open>e = M/V\<close> and returns: when \<open>e \<le> B/6\<close>, \<open>sigma_max = (V/(B L)) (1 + 6e/B)\<close> and
  \<open>sigma_min = (V/(B L)) (1 - 6e/B)\<close>; otherwise \<open>sigma_max = 2V/(B L)\<close> and
  \<open>sigma_min = 0\<close>. The test is \<open>\<le>\<close>, so the boundary \<open>e = B/6\<close> takes the linear
  formulas. \<open>E\<close> is a module constant of the script (20000); as a parameter here, the
  division by it that ends the function returns for every \<open>E \<noteq> 0\<close>.
\<close>

theorem calculate_settlement_pressures:
  assumes "V \<noteq> 0" "0 < B" "0 < L" "E \<noteq> 0"
  shows "\<exists>S sigma_max sigma_min e.
     calculate_settlement E L load_case_factors M H V B case_name
       = Inr (S, sigma_max, sigma_min, e) \<and>
     e = M / V \<and>
     (e \<le> B / 6 \<longrightarrow> sigma_max = (V / (B * L)) * (1 + 6 * e / B) \<and>
                      sigma_min = (V / (B * L)) * (1 - 6 * e / B)) \<and>
     (\<not> e \<le> B / 6 \<longrightarrow> sigma_max = 2 * V / (B * L) \<and> sigma_min = 0)"
proof -
  have nz: "B \<noteq> 0" "L \<noteq> 0" using assms by simp_all
  note r = calculate_settlement_returns [OF assms(1) nz assms(4), of load_case_factors M H case_name]
  show ?thesis
  proof (cases "M / V \<le> B / 6")
    case True
    with r show ?thesis by simp
  next
    case False
    with r show ?thesis by simp
  qed
qed

text \<open>
  Instances of C1 at the script's constants: inside the middle third, on its boundary
  \<open>e = B/6\<close> (linear formulas, giving \<open>2V/(B L)\<close> and \<open>0\<close>), and outside it.
\<close>

theorem calculate_settlement_pressures_witness:
  "(3::real) \<noteq> 0 \<and> (0::real) < 6 \<and> (0::real) < 2 \<and> E_src \<noteq> 0 \<and>
   calculate_settlement E_src 2 load_case_factors_src 1 0 3 6 ''Storm Rear''
     = Inr (21 / 200000, 1 / 3, 1 / 6, 1 / 3) \<and>
   calculate_settlement E_src 2 load_case_factors_src 3 0 3 6 ''Storm Rear''
     = Inr (63 / 400000, 1 / 2, 0, 1) \<and>
   calculate_settlement E_src 2 load_case_factors_src 6 0 3 6 ''Storm Rear''
     = Inr (63 / 400000, 1 / 2, 0, 2)"
proof -
  have h: "(3::real) \<noteq> 0" "(0::real) < 6" "(0::real) < 2" "E_src \<noteq> 0"
    by (simp_all add: E_src_def)
  show ?thesis
    using h
      calculate_settlement_pressures [OF h, of load_case_factors_src 1 0 "''Storm Rear''"]
      calculate_settlement_pressures [OF h, of load_case_factors_src 3 0 "''Storm Rear''"]
      calculate_settlement_pressures [OF h, of load_case_factors_src 6 0 "''Storm Rear''"]
    by (simp add: eval_defs)
qed

text \<open>
  C2. For every input with \<open>V \<noteq> 0\<close>, \<open>B, L, E > 0\<close> and any correction factor, the
  settlement returned by \<^verbatim>\<open>calculate_settlement\<close> equals
  \<open>(sigma_max * B * f_correction) / E\<close>, where \<open>sigma_max\<close> is the edge pressure returned by
  the same call and \<open>f_correction\<close> is the factor looked up for the case (1.0 when the
  case has no entry).
\<close>

theorem calculate_settlement_S_formula:
  assumes "V \<noteq> 0" "0 < B" "0 < L" "0 < E"
  shows "\<exists>S sigma_max sigma_min e.
     calculate_settlement E L load_case_factors M H V B case_name
       = Inr (S, sigma_max, sigma_min, e) \<and>
     S = sigma_max * B * dict_get load_case_factors case_name 1 / E"
proof -
  have "B \<noteq> 0" "L \<noteq> 0" "E \<noteq> 0" using assms by simp_all
  from calculate_settlement_returns [OF assms(1) this, of load_case_factors M H case_name]
  show ?thesis by blast
qed

theorem calculate_settlement_S_formula_witness:
  "(2925.2::real) \<noteq> 0 \<and> (0::real) < 7.7 \<and> 0 < E_src \<and>
   calculate_settlement E_src 7.7 load_case_factors_src 6980.0 100.0 2925.2 7.7 ''Storm Front''
     = Inr (2 * 2925.2 / (7.7 * 7.7) * 7.7 * 1.02 / 20000, 2 * 2925.2 / (7.7 * 7.7), 0,
            6980 / 2925.2)"
proof -
  have h: "(2925.2::real) \<noteq> 0" "(0::real) < 7.7" "0 < E_src"
    by (simp_all add: E_src_def)
  show ?thesis
    using h calculate_settlement_S_formula [OF h(1) h(2) h(2) h(3),
        of load_case_factors_src "6980.0" "100.0" "''Storm Front''"]
    by (simp add: eval_defs)
qed

text \<open>
  C4, as stated: for every input with \<open>V > 0\<close> and \<open>B, L > 0\<close> the \<open>sigma_min\<close> returned is
  non-negative, in the linear branch because \<open>6e/B \<le> 1\<close>. In doubles the branch test compares
  \<open>e\<close> with the rounded quotient \<open>B/6\<close>, which can lie above the exact one. For the
  script's footing \<open>B = L = 7.7\<close>, \<open>V = 2975.2\<close> and the moment \<^verbatim>\<open>V * B / 6\<close> that puts
  the load on the edge of the middle third, \<open>e\<close> equals the rounded \<open>B/6\<close>, the linear
  branch is taken, \<open>6e/B\<close> rounds to \<open>1 + 2^-52\<close>, and \<open>sigma_min\<close> is about \<open>-1.1e-14\<close>.
\<close>

theorem sigma_min_negative_counterexample:
  "(0::real) < fl64 2975.2 \<and>
   (0::real) < fl64 7.7 \<and>
   calculate_settlement_f64 E_src (fl64 7.7) load_case_factors_f64 (fl64 (fl64 (fl64 2975.2 * fl64 7.7) / 6)) 0 (fl64 2975.2) (fl64 7.7) ''Crane Operation''
     = Inr (6960576421481921 / 2 ^ 57, 7062273154912663 / 2 ^ 46, - 7062273154912663 / 2 ^ 99, 5779619521792137 / 2 ^ 52) \<and>
   (- 7062273154912663 / 2 ^ 99 :: real) < 0"
proof -
  define E :: real where "E = 20000"
  define L :: real where "L = 8669429282688205 / 2 ^ 50"
  define M :: real where "M = 8396251953728499 / 2 ^ 41"
  define V :: real where "V = 3271266994959155 / 2 ^ 40"
  define B :: real where "B = 8669429282688205 / 2 ^ 50"
  define f :: real where "f = 5 / 2 ^ 2"
  define e :: real where "e = 5779619521792137 / 2 ^ 52"
  define b6 :: real where "b6 = 5779619521792137 / 2 ^ 52"
  define bl :: real where "bl = 4172162842293699 / 2 ^ 46"
  define p :: real where "p = 7062273154912663 / 2 ^ 47"
  define e6 :: real where "e6 = 4334714641344103 / 2 ^ 49"
  define r :: real where "r = 4503599627370497 / 2 ^ 52"
  define t1 :: real where "t1 = 2"
  define smax :: real where "smax = 7062273154912663 / 2 ^ 46"
  define t2 :: real where "t2 = - 1 / 2 ^ 52"
  define smin :: real where "smin = - 7062273154912663 / 2 ^ 99"
  define s1 :: real where "s1 = 3398718955801719 / 2 ^ 42"
  define s2 :: real where "s2 = 4248398694752149 / 2 ^ 42"
  define S :: real where "S = 6960576421481921 / 2 ^ 57"
  have s1: "V \<noteq> 0"
    unfolding V_def by simp
  have s2: "B \<noteq> 0"
    unfolding B_def by simp
  have s3: "E \<noteq> 0"
    unfolding E_def by simp
  have s4: "fl64 (M / V) = e"
    unfolding M_def V_def e_def by (subst fl64_eqI [where k = "- 52"]) (simp_all add: rhe_def Let_def powr_neg_numeral)
  have s5: "fl64 (B / 6) = b6"
    unfolding B_def b6_def by (subst fl64_eqI [where k = "- 52"]) (simp_all add: rhe_def Let_def powr_neg_numeral)
  have s6: "fl64 (B * L) = bl"
    unfolding B_def L_def bl_def by (subst fl64_eqI [where k = "- 47"]) (simp_all add: rhe_def Let_def powr_neg_numeral)
  have s7: "bl \<noteq> 0"
    unfolding bl_def by simp
  have s8: "dict_get (load_case_factors_f64) ''Crane Operation'' 1 = f"
    unfolding f_def by (simp add: dict_get_def load_case_factors_f64_def fl64_decimals)
  have s9: "e \<le> b6"
    unfolding b6_def e_def by simp
  have s10: "fl64 (V / bl) = p"
    unfolding V_def bl_def p_def by (subst fl64_eqI [where k = "- 47"]) (simp_all add: rhe_def Let_def powr_neg_numeral)
  have s11: "fl64 (6 * e) = e6"
    unfolding e_def e6_def by (subst fl64_eqI [where k = "- 50"]) (simp_all add: rhe_def Let_def powr_neg_numeral)
  have s12: "fl64 (e6 / B) = r"
    unfolding B_def e6_def r_def by (subst fl64_eqI [where k = "- 52"]) (simp_all add: rhe_def Let_def powr_neg_numeral)
  have s13: "fl64 (1 + r) = t1"
    unfolding r_def t1_def by (subst fl64_eqI [where k = "- 51"]) (simp_all add: rhe_def Let_def powr_neg_numeral)
  have s14: "fl64 (p * t1) = smax"
    unfolding p_def smax_def t1_def by (subst fl64_eqI [where k = "- 46"]) (simp_all add: rhe_def Let_def powr_neg_numeral)
  have s15: "fl64 (1 - r) = t2"
    unfolding r_def t2_def by (subst fl64_eqI [where k = "- 104"]) (simp_all add: rhe_def Let_def powr_neg_numeral)
  have s16: "fl64 (p * t2) = smin"
    unfolding p_def smin_def t2_def by (subst fl64_eqI [where k = "- 99"]) (simp_all add: rhe_def Let_def powr_neg_numeral)
  have s17: "fl64 (smax * B) = s1"
    unfolding B_def s1_def smax_def by (subst fl64_eqI [where k = "- 43"]) (simp_all add: rhe_def Let_def powr_neg_numeral)
  have s18: "fl64 (s1 * f) = s2"
    unfolding f_def s1_def s2_def by (subst fl64_eqI [where k = "- 43"]) (simp_all add: rhe_def Let_def powr_neg_numeral)
  have s19: "fl64 (s2 / E) = S"
    unfolding E_def S_def s2_def by (subst fl64_eqI [where k = "- 57"]) (simp_all add: rhe_def Let_def powr_neg_numeral)
  have m20: "calculate_settlement_f64 E L (load_case_factors_f64) M 0 V B ''Crane Operation'' = Inr (S, smax, smin, e)"
    by (rule settle_eval_linear [OF s1 s2 s3 s4 s5 s9 s6 s7 s10 s11 s12 s13 s14 s15 s16 s8 s17 s18 s19])
  have l0: "fl64 7.7 = 8669429282688205 / 2 ^ 50"
    by (subst fl64_eqI [where k = "- 50"]) (simp_all add: rhe_def Let_def powr_neg_numeral)
  have l1: "fl64 2975.2 = 3271266994959155 / 2 ^ 40"
    by (subst fl64_eqI [where k = "- 41"]) (simp_all add: rhe_def Let_def powr_neg_numeral)
  have l2: "fl64 ((3271266994959155 / 2 ^ 40) * (8669429282688205 / 2 ^ 50)) = 3148594482648187 / 2 ^ 37"
    by (subst fl64_eqI [where k = "- 38"]) (simp_all add: rhe_def Let_def powr_neg_numeral)
  have l3: "fl64 ((3148594482648187 / 2 ^ 37) / 6) = 8396251953728499 / 2 ^ 41"
    by (subst fl64_eqI [where k = "- 41"]) (simp_all add: rhe_def Let_def powr_neg_numeral)
  have g0: "0 < V"
    unfolding V_def by simp
  have g1: "0 < B"
    unfolding B_def by simp
  have g2: "0 < L"
    unfolding L_def by simp
  have x0: "(- 7062273154912663 / 2 ^ 99 :: real) < 0"
    by simp
  show ?thesis
    unfolding l0 l1 l2 l3
    using g0 g1 g2 m20 x0
    unfolding E_def L_def M_def V_def B_def f_def e_def b6_def bl_def p_def e6_def r_def t1_def smax_def t2_def smin_def s1_def s2_def S_def E_src_def
    by (intro conjI)
qed

text \<open>
  C4, amended: for every input with \<open>V > 0\<close> and \<open>B, L > 0\<close> (doubles, \<open>B * L\<close> not rounding to
  zero), the function returns; in the triangular branch (\<open>e\<close> above the rounded \<open>B/6\<close>)
  \<open>sigma_min\<close> is exactly 0; in the linear branch it is \<open>(V/(B L)) (1 - 6e/B)\<close> as the
  doubles evaluate it, and it is non-negative whenever the computed eccentricity satisfies
  \<open>6 e \<le> B\<close> exactly. Only an \<open>e\<close> that passes the branch test through the rounding of
  \<open>B/6\<close> can give a negative \<open>sigma_min\<close>.
\<close>

theorem sigma_min_nonneg_f64:
  assumes "0 < V" "0 < B" "0 < L" "E \<noteq> 0" "fl64 B = B" "fl64 (B * L) \<noteq> 0"
  shows "\<exists>S sigma_max sigma_min e.
     calculate_settlement_f64 E L load_case_factors M H V B case_name
       = Inr (S, sigma_max, sigma_min, e) \<and>
     e = fl64 (M / V) \<and>
     (e \<le> fl64 (B / 6) \<longrightarrow>
        sigma_min = fl64 (fl64 (V / fl64 (B * L)) * fl64 (1 - fl64 (fl64 (6 * e) / B)))) \<and>
     (fl64 (B / 6) < e \<longrightarrow> sigma_min = 0) \<and>
     (6 * e \<le> B \<or> fl64 (B / 6) < e \<longrightarrow> 0 \<le> sigma_min)"
proof -
  let ?e = "fl64 (M / V)"
  let ?lin = "fl64 (fl64 (V / fl64 (B * L)) * fl64 (1 - fl64 (fl64 (6 * ?e) / B)))"
  have nz: "V \<noteq> 0" "B \<noteq> 0" using assms by simp_all
  note r = calculate_settlement_f64_returns [OF nz assms(6,4), of load_case_factors M H case_name]
  have lin: "0 \<le> ?lin" if "6 * ?e \<le> B"
  proof -
    have "fl64 (fl64 (6 * ?e) / B) \<le> 1" using assms(2,5) that by (rule ratio_le_1)
    then have "0 \<le> fl64 (1 - fl64 (fl64 (6 * ?e) / B))" by (intro fl64_nonneg) simp
    moreover have "0 \<le> fl64 (V / fl64 (B * L))"
      using assms(1-3) by (intro mean_pressure_nonneg) simp_all
    ultimately show ?thesis by (rule fl64_prod_nonneg [rotated])
  qed
  show ?thesis
  proof (cases "?e \<le> fl64 (B / 6)")
    case True
    with r lin show ?thesis by auto
  next
    case False
    with r show ?thesis by auto
  qed
qed

text \<open>
  Instances: the script's first load case on its default footing (triangular branch), and
  a case inside the middle third in which every operation but the last is exact
  (\<open>M = V = 3\<close>, \<open>B = 8\<close>, \<open>L = 2\<close>).
\<close>

theorem sigma_min_nonneg_f64_witness:
  "(0::real) < fl64 2975.2 \<and>
   (0::real) < fl64 7.7 \<and>
   E_src \<noteq> 0 \<and>
   fl64 (fl64 7.7) = fl64 7.7 \<and>
   fl64 (fl64 7.7 * fl64 7.7) \<noteq> 0 \<and>
   calculate_settlement_f64 E_src (fl64 7.7) load_case_factors_f64 5681 0 (fl64 2975.2) (fl64 7.7) ''Crane Operation''
     = Inr (6960576421481921 / 2 ^ 57, 7062273154912663 / 2 ^ 46, 0, 4299702454136157 / 2 ^ 51) \<and>
   calculate_settlement_f64 E_src 2 load_case_factors_f64 3 0 3 8 ''Crane Operation''
     = Inr (6052837899185947 / 2 ^ 65, 21 / 2 ^ 6, 3 / 2 ^ 6, 1)"
proof -
  define aE :: real where "aE = 20000"
  define aL :: real where "aL = 8669429282688205 / 2 ^ 50"
  define aM :: real where "aM = 5681"
  define aV :: real where "aV = 3271266994959155 / 2 ^ 40"
  define aB :: real where "aB = 8669429282688205 / 2 ^ 50"
  define af :: real where "af = 5 / 2 ^ 2"
  define ae :: real where "ae = 4299702454136157 / 2 ^ 51"
  define ab6 :: real where "ab6 = 5779619521792137 / 2 ^ 52"
  define abl :: real where "abl = 4172162842293699 / 2 ^ 46"
  define av2 :: real where "av2 = 3271266994959155 / 2 ^ 39"
  define asmax :: real where "asmax = 7062273154912663 / 2 ^ 46"
  define as1 :: real where "as1 = 3398718955801719 / 2 ^ 42"
  define as2 :: real where "as2 = 4248398694752149 / 2 ^ 42"
  define aS :: real where "aS = 6960576421481921 / 2 ^ 57"
  define bE :: real where "bE = 20000"
  define bL :: real where "bL = 2"
  define bM :: real where "bM = 3"
  define bV :: real where "bV = 3"
  define bB :: real where "bB = 8"
  define bf :: real where "bf = 5 / 2 ^ 2"
  define be :: real where "be = 1"
  define bb6 :: real where "bb6 = 6004799503160661 / 2 ^ 52"
  define bbl :: real where "bbl = 16"
  define bp :: real where "bp = 3 / 2 ^ 4"
  define be6 :: real where "be6 = 6"
  define br :: real where "br = 3 / 2 ^ 2"
  define bt1 :: real where "bt1 = 7 / 2 ^ 2"
  define bsmax :: real where "bsmax = 21 / 2 ^ 6"
  define bt2 :: real where "bt2 = 1 / 2 ^ 2"
  define bsmin :: real where "bsmin = 3 / 2 ^ 6"
  define bs1 :: real where "bs1 = 21 / 2 ^ 3"
  define bs2 :: real where "bs2 = 105 / 2 ^ 5"
  define bS :: real where "bS = 6052837899185947 / 2 ^ 65"
  have s1: "aV \<noteq> 0"
    unfolding aV_def by simp
  have s2: "aB \<noteq> 0"
    unfolding aB_def by simp
  have s3: "aE \<noteq> 0"
    unfolding aE_def by simp
  have s4: "fl64 (aM / aV) = ae"
    unfolding aM_def aV_def ae_def by (subst fl64_eqI [where k = "- 52"]) (simp_all add: rhe_def Let_def powr_neg_numeral)
  have s5: "fl64 (aB / 6) = ab6"
    unfolding aB_def ab6_def by (subst fl64_eqI [where k = "- 52"]) (simp_all add: rhe_def Let_def powr_neg_numeral)
  have s6: "fl64 (aB * aL) = abl"
    unfolding aB_def aL_def abl_def by (subst fl64_eqI [where k = "- 47"]) (simp_all add: rhe_def Let_def powr_neg_numeral)
  have s7: "abl \<noteq> 0"
    unfolding abl_def by simp
  have s8: "dict_get (load_case_factors_f64) ''Crane Operation'' 1 = af"
    unfolding af_def by (simp add: dict_get_def load_case_factors_f64_def fl64_decimals)
  have s9: "\<not> ae \<le> ab6"
    unfolding ab6_def ae_def by simp
  have s10: "fl64 (2 * aV) = av2"
    unfolding aV_def av2_def by (subst fl64_eqI [where k = "- 40"]) (simp_all add: rhe_def Let_def powr_neg_numeral)
  have s11: "fl64 (av2 / abl) = asmax"
    unfolding abl_def asmax_def av2_def by (subst fl64_eqI [where k = "- 46"]) (simp_all add: rhe_def Let_def powr_neg_numeral)
  have s12: "fl64 (asmax * aB) = as1"
    unfolding aB_def as1_def asmax_def by (subst fl64_eqI [where k = "- 43"]) (simp_all add: rhe_def Let_def powr_neg_numeral)
  have s13: "fl64 (as1 * af) = as2"
    unfolding af_def as1_def as2_def by (subst fl64_eqI [where k = "- 43"]) (simp_all add: rhe_def Let_def powr_neg_numeral)
  have s14: "fl64 (as2 / aE) = aS"
    unfolding aE_def aS_def as2_def by (subst fl64_eqI [where k = "- 57"]) (simp_all add: rhe_def Let_def powr_neg_numeral)
  have m15: "calculate_settlement_f64 aE aL (load_case_factors_f64) aM 0 aV aB ''Crane Operation'' = Inr (aS, asmax, 0, ae)"
    by (rule settle_eval_triangular [OF s1 s2 s3 s4 s5 s9 s6 s7 s10 s11 s8 s12 s13 s14])
  have s16: "bV \<noteq> 0"
    unfolding bV_def by simp
  have s17: "bB \<noteq> 0"
    unfolding bB_def by simp
  have s18: "bE \<noteq> 0"
    unfolding bE_def by simp
  have s19: "fl64 (bM / bV) = be"
    unfolding bM_def bV_def be_def by (subst fl64_eqI [where k = "- 52"]) (simp_all add: rhe_def Let_def powr_neg_numeral)
  have s20: "fl64 (bB / 6) = bb6"
    unfolding bB_def bb6_def by (subst fl64_eqI [where k = "- 52"]) (simp_all add: rhe_def Let_def powr_neg_numeral)
  have s21: "fl64 (bB * bL) = bbl"
    unfolding bB_def bL_def bbl_def by (subst fl64_eqI [where k = "- 48"]) (simp_all add: rhe_def Let_def powr_neg_numeral)
  have s22: "bbl \<noteq> 0"
    unfolding bbl_def by simp
  have s23: "dict_get (load_case_factors_f64) ''Crane Operation'' 1 = bf"
    unfolding bf_def by (simp add: dict_get_def load_case_factors_f64_def fl64_decimals)
  have s24: "be \<le> bb6"
    unfolding bb6_def be_def by simp
  have s25: "fl64 (bV / bbl) = bp"
    unfolding bV_def bbl_def bp_def by (subst fl64_eqI [where k = "- 55"]) (simp_all add: rhe_def Let_def powr_neg_numeral)
  have s26: "fl64 (6 * be) = be6"
    unfolding be_def be6_def by (subst fl64_eqI [where k = "- 50"]) (simp_all add: rhe_def Let_def powr_neg_numeral)
  have s27: "fl64 (be6 / bB) = br"
    unfolding bB_def be6_def br_def by (subst fl64_eqI [where k = "- 53"]) (simp_all add: rhe_def Let_def powr_neg_numeral)
  have s28: "fl64 (1 + br) = bt1"
    unfolding br_def bt1_def by (subst fl64_eqI [where k = "- 52"]) (simp_all add: rhe_def Let_def powr_neg_numeral)
  have s29: "fl64 (bp * bt1) = bsmax"
    unfolding bp_def bsmax_def bt1_def by (subst fl64_eqI [where k = "- 54"]) (simp_all add: rhe_def Let_def powr_neg_numeral)
  have s30: "fl64 (1 - br) = bt2"
    unfolding br_def bt2_def by (subst fl64_eqI [where k = "- 54"]) (simp_all add: rhe_def Let_def powr_neg_numeral)
  have s31: "fl64 (bp * bt2) = bsmin"
    unfolding bp_def bsmin_def bt2_def by (subst fl64_eqI [where k = "- 57"]) (simp_all add: rhe_def Let_def powr_neg_numeral)
  have s32: "fl64 (bsmax * bB) = bs1"
    unfolding bB_def bs1_def bsmax_def by (subst fl64_eqI [where k = "- 51"]) (simp_all add: rhe_def Let_def powr_neg_numeral)
  have s33: "fl64 (bs1 * bf) = bs2"
    unfolding bf_def bs1_def bs2_def by (subst fl64_eqI [where k = "- 51"]) (simp_all add: rhe_def Let_def powr_neg_numeral)
  have s34: "fl64 (bs2 / bE) = bS"
    unfolding bE_def bS_def bs2_def by (subst fl64_eqI [where k = "- 65"]) (simp_all add: rhe_def Let_def powr_neg_numeral)
  have m35: "calculate_settlement_f64 bE bL (load_case_factors_f64) bM 0 bV bB ''Crane Operation'' = Inr (bS, bsmax, bsmin, be)"
    by (rule settle_eval_linear [OF s16 s17 s18 s19 s20 s24 s21 s22 s25 s26 s27 s28 s29 s30 s31 s23 s32 s33 s34])
  have l0: "fl64 7.7 = 8669429282688205 / 2 ^ 50"
    by (subst fl64_eqI [where k = "- 50"]) (simp_all add: rhe_def Let_def powr_neg_numeral)
  have l1: "fl64 2975.2 = 3271266994959155 / 2 ^ 40"
    by (subst fl64_eqI [where k = "- 41"]) (simp_all add: rhe_def Let_def powr_neg_numeral)
  have g0: "0 < aV"
    unfolding aV_def by simp
  have g1: "0 < aB"
    unfolding aB_def by simp
  have g2: "0 < aL"
    unfolding aL_def by simp
  have g3: "aE \<noteq> 0"
    unfolding aE_def by simp
  have g4: "fl64 aB = aB"
    unfolding aB_def by (subst fl64_eqI [where k = "- 50"]) (simp_all add: rhe_def Let_def powr_neg_numeral)
  have g5: "fl64 (aB * aL) \<noteq> 0"
    by (simp only: s6 s7 not_False_eq_True)
  show ?thesis
    unfolding l0 l1
    using g0 g1 g2 g3 g4 g5 m15 m35 sigma_min_nonneg_f64 [where E = aE and L = aL and M = aM and H = 0 and V = aV and B = aB and load_case_factors = "load_case_factors_f64" and case_name = "''Crane Operation''", OF g0 g1 g2 g3 g4 g5]
    unfolding aE_def aL_def aM_def aV_def aB_def af_def ae_def ab6_def abl_def av2_def asmax_def as1_def as2_def aS_def bE_def bL_def bM_def bV_def bB_def bf_def be_def bb6_def bbl_def bp_def be6_def br_def bt1_def bsmax_def bt2_def bsmin_def bs1_def bs2_def bS_def E_src_def
    by (intro conjI)
qed

text \<open>
  C10, as stated: for \<open>V > 0\<close>, \<open>B, L > 0\<close> and \<open>e = M/V < -B/6\<close> the linear branch returns
  \<open>sigma_max < 0\<close> and a negative settlement. The branch and the formula are the code's, the
  strict signs are not: for \<open>V = B = L = 1\<close> and \<open>M\<close> the double next below \<open>-1/6\<close>, the
  product \<open>6e\<close> rounds to \<open>-1\<close>, so \<open>1 + 6e/B\<close> is 0 and the function returns
  \<open>sigma_max = 0\<close> and \<open>S = 0\<close>.
\<close>

theorem one_sided_sigma_max_zero_counterexample:
  "(0::real) < 1 \<and>
   calculate_settlement_f64 E_src 1 load_case_factors_f64 (- 3002399751580331 / 2 ^ 54) 0 1 1 ''Crane Operation''
     = Inr (0, 0, 2, - 3002399751580331 / 2 ^ 54) \<and>
   ((- 3002399751580331 / 2 ^ 54) :: real) / 1 < - 1 / 6"
proof -
  define E :: real where "E = 20000"
  define L :: real where "L = 1"
  define M :: real where "M = - 3002399751580331 / 2 ^ 54"
  define V :: real where "V = 1"
  define B :: real where "B = 1"
  define f :: real where "f = 5 / 2 ^ 2"
  define e :: real where "e = - 3002399751580331 / 2 ^ 54"
  define b6 :: real where "b6 = 6004799503160661 / 2 ^ 55"
  define bl :: real where "bl = 1"
  define p :: real where "p = 1"
  define e6 :: real where "e6 = - 1"
  define r :: real where "r = - 1"
  define t1 :: real where "t1 = 0"
  define smax :: real where "smax = 0"
  define t2 :: real where "t2 = 2"
  define smin :: real where "smin = 2"
  define s1 :: real where "s1 = 0"
  define s2 :: real where "s2 = 0"
  define S :: real where "S = 0"
  have s1: "V \<noteq> 0"
    unfolding V_def by simp
  have s2: "B \<noteq> 0"
    unfolding B_def by simp
  have s3: "E \<noteq> 0"
    unfolding E_def by simp
  have s4: "fl64 (M / V) = e"
    unfolding M_def V_def e_def by (subst fl64_eqI [where k = "- 55"]) (simp_all add: rhe_def Let_def powr_neg_numeral)
  have s5: "fl64 (B / 6) = b6"
    unfolding B_def b6_def by (subst fl64_eqI [where k = "- 55"]) (simp_all add: rhe_def Let_def powr_neg_numeral)
  have s6: "fl64 (B * L) = bl"
    unfolding B_def L_def bl_def by (subst fl64_eqI [where k = "- 52"]) (simp_all add: rhe_def Let_def powr_neg_numeral)
  have s7: "bl \<noteq> 0"
    unfolding bl_def by simp
  have s8: "dict_get (load_case_factors_f64) ''Crane Operation'' 1 = f"
    unfolding f_def by (simp add: dict_get_def load_case_factors_f64_def fl64_decimals)
  have s9: "e \<le> b6"
    unfolding b6_def e_def by simp
  have s10: "fl64 (V / bl) = p"
    unfolding V_def bl_def p_def by (subst fl64_eqI [where k = "- 52"]) (simp_all add: rhe_def Let_def powr_neg_numeral)
  have s11: "fl64 (6 * e) = e6"
    unfolding e_def e6_def by (subst fl64_eqI [where k = "- 52"]) (simp_all add: rhe_def Let_def powr_neg_numeral)
  have s12: "fl64 (e6 / B) = r"
    unfolding B_def e6_def r_def by (subst fl64_eqI [where k = "- 52"]) (simp_all add: rhe_def Let_def powr_neg_numeral)
  have s13: "fl64 (1 + r) = t1"
    unfolding r_def t1_def by (simp add: fl64_0)
  have s14: "fl64 (p * t1) = smax"
    unfolding p_def smax_def t1_def by (simp add: fl64_0)
  have s15: "fl64 (1 - r) = t2"
    unfolding r_def t2_def by (subst fl64_eqI [where k = "- 51"]) (simp_all add: rhe_def Let_def powr_neg_numeral)
  have s16: "fl64 (p * t2) = smin"
    unfolding p_def smin_def t2_def by (subst fl64_eqI [where k = "- 51"]) (simp_all add: rhe_def Let_def powr_neg_numeral)
  have s17: "fl64 (smax * B) = s1"
    unfolding B_def s1_def smax_def by (simp add: fl64_0)
  have s18: "fl64 (s1 * f) = s2"
    unfolding f_def s1_def s2_def by (simp add: fl64_0)
  have s19: "fl64 (s2 / E) = S"
    unfolding E_def S_def s2_def by (simp add: fl64_0)
  have m20: "calculate_settlement_f64 E L (load_case_factors_f64) M 0 V B ''Crane Operation'' = Inr (S, smax, smin, e)"
    by (rule settle_eval_linear [OF s1 s2 s3 s4 s5 s9 s6 s7 s10 s11 s12 s13 s14 s15 s16 s8 s17 s18 s19])
  have g0: "0 < V"
    unfolding V_def by simp
  have g1: "0 < B"
    unfolding B_def by simp
  have g2: "0 < L"
    unfolding L_def by simp
  have x0: "((- 3002399751580331 / 2 ^ 54) :: real) / 1 < - 1 / 6"
    by simp
  show ?thesis
    using g0 g1 g2 m20 x0
    unfolding E_def L_def M_def V_def B_def f_def e_def b6_def bl_def p_def e6_def r_def t1_def smax_def t2_def smin_def s1_def s2_def S_def E_src_def
    by (intro conjI)
qed

text \<open>
  C10, amended: the middle-third test is one-sided. For every input with \<open>V > 0\<close>,
  \<open>B, L > 0\<close> (doubles, \<open>B * L\<close> not rounding to zero), \<open>E > 0\<close>, a positive correction factor
  and a computed eccentricity \<open>e = M/V < -B/6\<close>, the linear branch is taken and returns
  \<open>sigma_max = (V/(B L)) (1 + 6e/B) \<le> 0\<close> and a settlement \<open>S \<le> 0\<close>; nothing is clamped on
  the negative side, \<open>sigma_min\<close> is the linear value \<open>(V/(B L)) (1 - 6e/B) \<ge> 0\<close>. Both
  \<open>sigma_max\<close> and \<open>S\<close> can be exactly 0.
\<close>

theorem one_sided_middle_third_f64:
  assumes "0 < V" "0 < B" "0 < L" "0 < E" "0 < dict_get load_case_factors case_name 1"
    and "fl64 B = B" "fl64 (B * L) \<noteq> 0"
    and "fl64 (M / V) < - B / 6"
  shows "\<exists>S sigma_max sigma_min e.
     calculate_settlement_f64 E L load_case_factors M H V B case_name
       = Inr (S, sigma_max, sigma_min, e) \<and>
     e = fl64 (M / V) \<and> e \<le> fl64 (B / 6) \<and>
     sigma_max = fl64 (fl64 (V / fl64 (B * L)) * fl64 (1 + fl64 (fl64 (6 * e) / B))) \<and>
     sigma_min = fl64 (fl64 (V / fl64 (B * L)) * fl64 (1 - fl64 (fl64 (6 * e) / B))) \<and>
     S = fl64 (fl64 (fl64 (sigma_max * B) * dict_get load_case_factors case_name 1) / E) \<and>
     sigma_max \<le> 0 \<and> S \<le> 0 \<and> 0 \<le> sigma_min"
proof -
  let ?f = "dict_get load_case_factors case_name 1"
  let ?e = "fl64 (M / V)"
  let ?p = "fl64 (V / fl64 (B * L))"
  let ?r = "fl64 (fl64 (6 * ?e) / B)"
  let ?smax = "fl64 (?p * fl64 (1 + ?r))"
  let ?smin = "fl64 (?p * fl64 (1 - ?r))"
  have nz: "V \<noteq> 0" "B \<noteq> 0" "E \<noteq> 0" using assms by simp_all
  have "0 \<le> fl64 (B / 6)" using assms(2) by (intro fl64_nonneg) simp
  moreover have "?e < 0" using assms(2,8) by linarith
  ultimately have le: "?e \<le> fl64 (B / 6)" by linarith
  have r: "calculate_settlement_f64 E L load_case_factors M H V B case_name =
      Inr (fl64 (fl64 (fl64 (?smax * B) * ?f) / E), ?smax, ?smin, ?e)"
    using calculate_settlement_f64_returns [OF nz(1,2) assms(7) nz(3), of load_case_factors M H case_name] le
    by (simp only: if_True)
  have "6 * ?e \<le> - B" using assms(8) by linarith
  then have rr: "?r \<le> - 1" using assms(2,6) by (intro ratio_le_m1)
  have p: "0 \<le> ?p" using assms(1-3) by (intro mean_pressure_nonneg) simp_all
  have "fl64 (1 + ?r) \<le> 0" using rr by (intro fl64_nonpos) simp
  with p have neg: "?smax \<le> 0" by (rule fl64_prod_nonpos)
  have "0 \<le> fl64 (1 - ?r)" using rr by (intro fl64_nonneg) simp
  with p have smin: "0 \<le> ?smin" by (rule fl64_prod_nonneg)
  have S: "fl64 (fl64 (fl64 (?smax * B) * ?f) / E) \<le> 0"
    using assms(2,4) less_imp_le [OF assms(5)] neg by (rule settlement_nonpos)
  show ?thesis using r le neg S smin by blast
qed

text \<open>
  An instance: \<open>M = -6\<close>, \<open>V = 6\<close>, \<open>B = 2\<close>, \<open>L = 3\<close> gives \<open>e = -1\<close>,
  \<open>sigma_max = -2\<close>, \<open>sigma_min = 4\<close> and a negative settlement.
\<close>

theorem one_sided_middle_third_f64_witness:
  "(0::real) < 6 \<and>
   (0::real) < 2 \<and>
   (0::real) < 3 \<and>
   0 < E_src \<and>
   0 < dict_get load_case_factors_f64 ''During Assembly'' 1 \<and>
   fl64 2 = 2 \<and>
   fl64 (2 * 3) \<noteq> 0 \<and>
   calculate_settlement_f64 E_src 3 load_case_factors_f64 (- 6) 0 6 2 ''During Assembly''
     = Inr (- 1199038364791121 / 2 ^ 62, - 2, 4, - 1) \<and>
   fl64 (- 6 / 6) < - 2 / 6"
proof -
  define E :: real where "E = 20000"
  define L :: real where "L = 3"
  define M :: real where "M = - 6"
  define V :: real where "V = 6"
  define B :: real where "B = 2"
  define f :: real where "f = 5854679515581645 / 2 ^ 52"
  define e :: real where "e = - 1"
  define b6 :: real where "b6 = 6004799503160661 / 2 ^ 54"
  define bl :: real where "bl = 6"
  define p :: real where "p = 1"
  define e6 :: real where "e6 = - 6"
  define r :: real where "r = - 3"
  define t1 :: real where "t1 = - 2"
  define smax :: real where "smax = - 2"
  define t2 :: real where "t2 = 4"
  define smin :: real where "smin = 4"
  define s1 :: real where "s1 = - 4"
  define s2 :: real where "s2 = - 5854679515581645 / 2 ^ 50"
  define S :: real where "S = - 1199038364791121 / 2 ^ 62"
  have s1: "V \<noteq> 0"
    unfolding V_def by simp
  have s2: "B \<noteq> 0"
    unfolding B_def by simp
  have s3: "E \<noteq> 0"
    unfolding E_def by simp
  have s4: "fl64 (M / V) = e"
    unfolding M_def V_def e_def by (subst fl64_eqI [where k = "- 52"]) (simp_all add: rhe_def Let_def powr_neg_numeral)
  have s5: "fl64 (B / 6) = b6"
    unfolding B_def b6_def by (subst fl64_eqI [where k = "- 54"]) (simp_all add: rhe_def Let_def powr_neg_numeral)
  have s6: "fl64 (B * L) = bl"
    unfolding B_def L_def bl_def by (subst fl64_eqI [where k = "- 50"]) (simp_all add: rhe_def Let_def powr_neg_numeral)
  have s7: "bl \<noteq> 0"
    unfolding bl_def by simp
  have s8: "dict_get (load_case_factors_f64) ''During Assembly'' 1 = f"
    unfolding f_def by (simp add: dict_get_def load_case_factors_f64_def fl64_decimals)
  have s9: "e \<le> b6"
    unfolding b6_def e_def by simp
  have s10: "fl64 (V / bl) = p"
    unfolding V_def bl_def p_def by (subst fl64_eqI [where k = "- 52"]) (simp_all add: rhe_def Let_def powr_neg_numeral)
  have s11: "fl64 (6 * e) = e6"
    unfolding e_def e6_def by (subst fl64_eqI [where k = "- 50"]) (simp_all add: rhe_def Let_def powr_neg_numeral)
  have s12: "fl64 (e6 / B) = r"
    unfolding B_def e6_def r_def by (subst fl64_eqI [where k = "- 51"]) (simp_all add: rhe_def Let_def powr_neg_numeral)
  have s13: "fl64 (1 + r) = t1"
    unfolding r_def t1_def by (subst fl64_eqI [where k = "- 51"]) (simp_all add: rhe_def Let_def powr_neg_numeral)
  have s14: "fl64 (p * t1) = smax"
    unfolding p_def smax_def t1_def by (subst fl64_eqI [where k = "- 51"]) (simp_all add: rhe_def Let_def powr_neg_numeral)
  have s15: "fl64 (1 - r) = t2"
    unfolding r_def t2_def by (subst fl64_eqI [where k = "- 50"]) (simp_all add: rhe_def Let_def powr_neg_numeral)
  have s16: "fl64 (p * t2) = smin"
    unfolding p_def smin_def t2_def by (subst fl64_eqI [where k = "- 50"]) (simp_all add: rhe_def Let_def powr_neg_numeral)
  have s17: "fl64 (smax * B) = s1"
    unfolding B_def s1_def smax_def by (subst fl64_eqI [where k = "- 50"]) (simp_all add: rhe_def Let_def powr_neg_numeral)
  have s18: "fl64 (s1 * f) = s2"
    unfolding f_def s1_def s2_def by (subst fl64_eqI [where k = "- 50"]) (simp_all add: rhe_def Let_def powr_neg_numeral)
  have s19: "fl64 (s2 / E) = S"
    unfolding E_def S_def s2_def by (subst fl64_eqI [where k = "- 64"]) (simp_all add: rhe_def Let_def powr_neg_numeral)
  have m20: "calculate_settlement_f64 E L (load_case_factors_f64) M 0 V B ''During Assembly'' = Inr (S, smax, smin, e)"
    by (rule settle_eval_linear [OF s1 s2 s3 s4 s5 s9 s6 s7 s10 s11 s12 s13 s14 s15 s16 s8 s17 s18 s19])
  have g0: "0 < V"
    unfolding V_def by simp
  have g1: "0 < B"
    unfolding B_def by simp
  have g2: "0 < L"
    unfolding L_def by simp
  have g3: "0 < E"
    unfolding E_def by simp
  have g4: "0 < dict_get load_case_factors_f64 ''During Assembly'' 1"
    by (simp add: dict_get_def load_case_factors_f64_def fl64_decimals)
  have g5: "fl64 B = B"
    unfolding B_def by (subst fl64_eqI [where k = "- 51"]) (simp_all add: rhe_def Let_def powr_neg_numeral)
  have g6: "fl64 (B * L) \<noteq> 0"
    by (simp only: s6 s7 not_False_eq_True)
  have x0: "fl64 (M / V) < - B / 6"
    unfolding M_def V_def B_def by (simp add: fl64_m1)
  show ?thesis
    using g0 g1 g2 g3 g4 g5 g6 m20 x0 one_sided_middle_third_f64 [where E = E and L = L and M = M and H = 0 and V = V and B = B and load_case_factors = "load_case_factors_f64" and case_name = "''During Assembly''", OF g0 g1 g2 g3 g4 g5 g6 x0]
    unfolding E_def L_def M_def V_def B_def f_def e_def b6_def bl_def p_def e6_def r_def t1_def smax_def t2_def smin_def s1_def s2_def S_def E_src_def
    by (intro conjI)
qed

text \<open>
  C8, as stated: holding \<open>M\<close>, \<open>V\<close>, \<open>B\<close>, \<open>L\<close> and \<open>E\<close> fixed, the settlement is strictly
  increasing in the correction factor. It fails in two ways. Where the edge pressure is
  negative the order is reversed: with \<open>M = -1\<close>, \<open>V = B = L = 1\<close>, \<open>sigma_max = -5\<close> and
  the factor 1.25 of \<^verbatim>\<open>Crane Operation\<close> gives a smaller settlement than the factor 1.02
  of \<^verbatim>\<open>Storm Front\<close>. And where the edge pressure is positive the increase is not strict:
  for the script's \<^verbatim>\<open>During Assembly\<close> load on its default footing, the factor 1.02 and
  the next double above it give the same settlement.
\<close>

theorem settlement_not_strictly_monotone_counterexample:
  "calculate_settlement_f64 E_src 1 load_case_factors_f64 (- 1) 0 1 1 ''Storm Front''
     = Inr (- 4703919738795935 / 2 ^ 64, - 5, 7, - 1) \<and>
   calculate_settlement_f64 E_src 1 load_case_factors_f64 (- 1) 0 1 1 ''Crane Operation''
     = Inr (- 5764607523034235 / 2 ^ 64, - 5, 7, - 1) \<and>
   calculate_settlement_f64 E_src (fl64 7.7) ([''During Assembly'' \<mapsto> 2296835809958953 / 2 ^ 51]) 3980 0 (fl64 2705.2) (fl64 7.7) ''During Assembly''
     = Inr (1291096152332667 / 2 ^ 55, 802671305234511 / 2 ^ 43, 0, 6625878499532225 / 2 ^ 52) \<and>
   calculate_settlement_f64 E_src (fl64 7.7) ([''During Assembly'' \<mapsto> 4593671619917907 / 2 ^ 52]) 3980 0 (fl64 2705.2) (fl64 7.7) ''During Assembly''
     = Inr (1291096152332667 / 2 ^ 55, 802671305234511 / 2 ^ 43, 0, 6625878499532225 / 2 ^ 52) \<and>
   dict_get load_case_factors_f64 ''Storm Front'' 1 < dict_get load_case_factors_f64 ''Crane Operation'' 1 \<and>
   \<not> (- 4703919738795935 / 2 ^ 64 :: real) < - 5764607523034235 / 2 ^ 64 \<and>
   (2296835809958953 / 2 ^ 51 :: real) < 4593671619917907 / 2 ^ 52"
proof -
  define aE :: real where "aE = 20000"
  define aL :: real where "aL = 1"
  define aM :: real where "aM = - 1"
  define aV :: real where "aV = 1"
  define aB :: real where "aB = 1"
  define af :: real where "af = 2296835809958953 / 2 ^ 51"
  define ae :: real where "ae = - 1"
  define ab6 :: real where "ab6 = 6004799503160661 / 2 ^ 55"
  define abl :: real where "abl = 1"
  define ap :: real where "ap = 1"
  define ae6 :: real where "ae6 = - 6"
  define ar :: real where "ar = - 6"
  define at1 :: real where "at1 = - 5"
  define asmax :: real where "asmax = - 5"
  define at2 :: real where "at2 = 7"
  define asmin :: real where "asmin = 7"
  define as1 :: real where "as1 = - 5"
  define as2 :: real where "as2 = - 2871044762448691 / 2 ^ 49"
  define aS :: real where "aS = - 4703919738795935 / 2 ^ 64"
  define bE :: real where "bE = 20000"
  define bL :: real where "bL = 1"
  define bM :: real where "bM = - 1"
  define bV :: real where "bV = 1"
  define bB :: real where "bB = 1"
  define bf :: real where "bf = 5 / 2 ^ 2"
  define be :: real where "be = - 1"
  define bb6 :: real where "bb6 = 6004799503160661 / 2 ^ 55"
  define bbl :: real where "bbl = 1"
  define bp :: real where "bp = 1"
  define be6 :: real where "be6 = - 6"
  define br :: real where "br = - 6"
  define bt1 :: real where "bt1 = - 5"
  define bsmax :: real where "bsmax = - 5"
  define bt2 :: real where "bt2 = 7"
  define bsmin :: real where "bsmin = 7"
  define bs1 :: real where "bs1 = - 5"
  define bs2 :: real where "bs2 = - 25 / 2 ^ 2"
  define bS :: real where "bS = - 5764607523034235 / 2 ^ 64"
  define cE :: real where "cE = 20000"
  define cL :: real where "cL = 8669429282688205 / 2 ^ 50"
  define cM :: real where "cM = 3980"
  define cV :: real where "cV = 2974398855459635 / 2 ^ 40"
  define cB :: real where "cB = 8669429282688205 / 2 ^ 50"
  define cf :: real where "cf = 2296835809958953 / 2 ^ 51"
  define ce :: real where "ce = 6625878499532225 / 2 ^ 52"
  define cb6 :: real where "cb6 = 5779619521792137 / 2 ^ 52"
  define cbl :: real where "cbl = 4172162842293699 / 2 ^ 46"
  define cv2 :: real where "cv2 = 2974398855459635 / 2 ^ 39"
  define csmax :: real where "csmax = 802671305234511 / 2 ^ 43"
  define cs1 :: real where "cs1 = 6180569050305735 / 2 ^ 43"
  define cs2 :: real where "cs2 = 3152090215655925 / 2 ^ 42"
  define cS :: real where "cS = 1291096152332667 / 2 ^ 55"
  define dE :: real where "dE = 20000"
  define dL :: real where "dL = 8669429282688205 / 2 ^ 50"
  define dM :: real where "dM = 3980"
  define dV :: real where "dV = 2974398855459635 / 2 ^ 40"
  define dB :: real where "dB = 8669429282688205 / 2 ^ 50"
  define df :: real where "df = 4593671619917907 / 2 ^ 52"
  define de :: real where "de = 6625878499532225 / 2 ^ 52"
  define db6 :: real where "db6 = 5779619521792137 / 2 ^ 52"
  define dbl :: real where "dbl = 4172162842293699 / 2 ^ 46"
  define dv2 :: real where "dv2 = 2974398855459635 / 2 ^ 39"
  define dsmax :: real where "dsmax = 802671305234511 / 2 ^ 43"
  define ds1 :: real where "ds1 = 6180569050305735 / 2 ^ 43"
  define ds2 :: real where "ds2 = 6304180431311851 / 2 ^ 43"
  define dS :: real where "dS = 1291096152332667 / 2 ^ 55"
  have s1: "aV \<noteq> 0"
    unfolding aV_def by simp
  have s2: "aB \<noteq> 0"
    unfolding aB_def by simp
  have s3: "aE \<noteq> 0"
    unfolding aE_def by simp
  have s4: "fl64 (aM / aV) = ae"
    unfolding aM_def aV_def ae_def by (subst fl64_eqI [where k = "- 52"]) (simp_all add: rhe_def Let_def powr_neg_numeral)
  have s5: "fl64 (aB / 6) = ab6"
    unfolding aB_def ab6_def by (subst fl64_eqI [where k = "- 55"]) (simp_all add: rhe_def Let_def powr_neg_numeral)
  have s6: "fl64 (aB * aL) = abl"
    unfolding aB_def aL_def abl_def by (subst fl64_eqI [where k = "- 52"]) (simp_all add: rhe_def Let_def powr_neg_numeral)
  have s7: "abl \<noteq> 0"
    unfolding abl_def by simp
  have s8: "dict_get (load_case_factors_f64) ''Storm Front'' 1 = af"
    unfolding af_def by (simp add: dict_get_def load_case_factors_f64_def fl64_decimals)
  have s9: "ae \<le> ab6"
    unfolding ab6_def ae_def by simp
  have s10: "fl64 (aV / abl) = ap"
    unfolding aV_def abl_def ap_def by (subst fl64_eqI [where k = "- 52"]) (simp_all add: rhe_def Let_def powr_neg_numeral)
  have s11: "fl64 (6 * ae) = ae6"
    unfolding ae_def ae6_def by (subst fl64_eqI [where k = "- 50"]) (simp_all add: rhe_def Let_def powr_neg_numeral)
  have s12: "fl64 (ae6 / aB) = ar"
    unfolding aB_def ae6_def ar_def by (subst fl64_eqI [where k = "- 50"]) (simp_all add: rhe_def Let_def powr_neg_numeral)
  have s13: "fl64 (1 + ar) = at1"
    unfolding ar_def at1_def by (subst fl64_eqI [where k = "- 50"]) (simp_all add: rhe_def Let_def powr_neg_numeral)
  have s14: "fl64 (ap * at1) = asmax"
    unfolding ap_def asmax_def at1_def by (subst fl64_eqI [where k = "- 50"]) (simp_all add: rhe_def Let_def powr_neg_numeral)
  have s15: "fl64 (1 - ar) = at2"
    unfolding ar_def at2_def by (subst fl64_eqI [where k = "- 50"]) (simp_all add: rhe_def Let_def powr_neg_numeral)
  have s16: "fl64 (ap * at2) = asmin"
    unfolding ap_def asmin_def at2_def by (subst fl64_eqI [where k = "- 50"]) (simp_all add: rhe_def Let_def powr_neg_numeral)
  have s17: "fl64 (asmax * aB) = as1"
    unfolding aB_def as1_def asmax_def by (subst fl64_eqI [where k = "- 50"]) (simp_all add: rhe_def Let_def powr_neg_numeral)
  have s18: "fl64 (as1 * af) = as2"
    unfolding af_def as1_def as2_def by (subst fl64_eqI [where k = "- 50"]) (simp_all add: rhe_def Let_def powr_neg_numeral)
  have s19: "fl64 (as2 / aE) = aS"
    unfolding aE_def aS_def as2_def by (subst fl64_eqI [where k = "- 64"]) (simp_all add: rhe_def Let_def powr_neg_numeral)
  have m20: "calculate_settlement_f64 aE aL (load_case_factors_f64) aM 0 aV aB ''Storm Front'' = Inr (aS, asmax, asmin, ae)"
    by (rule settle_eval_linear [OF s1 s2 s3 s4 s5 s9 s6 s7 s10 s11 s12 s13 s14 s15 s16 s8 s17 s18 s19])
  have s21: "bV \<noteq> 0"
    unfolding bV_def by simp
  have s22: "bB \<noteq> 0"
    unfolding bB_def by simp
  have s23: "bE \<noteq> 0"
    unfolding bE_def by simp
  have s24: "fl64 (bM / bV) = be"
    unfolding bM_def bV_def be_def by (subst fl64_eqI [where k = "- 52"]) (simp_all add: rhe_def Let_def powr_neg_numeral)
  have s25: "fl64 (bB / 6) = bb6"
    unfolding bB_def bb6_def by (subst fl64_eqI [where k = "- 55"]) (simp_all add: rhe_def Let_def powr_neg_numeral)
  have s26: "fl64 (bB * bL) = bbl"
    unfolding bB_def bL_def bbl_def by (subst fl64_eqI [where k = "- 52"]) (simp_all add: rhe_def Let_def powr_neg_numeral)
  have s27: "bbl \<noteq> 0"
    unfolding bbl_def by simp
  have s28: "dict_get (load_case_factors_f64) ''Crane Operation'' 1 = bf"
    unfolding bf_def by (simp add: dict_get_def load_case_factors_f64_def fl64_decimals)
  have s29: "be \<le> bb6"
    unfolding bb6_def be_def by simp
  have s30: "fl64 (bV / bbl) = bp"
    unfolding bV_def bbl_def bp_def by (subst fl64_eqI [where k = "- 52"]) (simp_all add: rhe_def Let_def powr_neg_numeral)
  have s31: "fl64 (6 * be) = be6"
    unfolding be_def be6_def by (subst fl64_eqI [where k = "- 50"]) (simp_all add: rhe_def Let_def powr_neg_numeral)
  have s32: "fl64 (be6 / bB) = br"
    unfolding bB_def be6_def br_def by (subst fl64_eqI [where k = "- 50"]) (simp_all add: rhe_def Let_def powr_neg_numeral)
  have s33: "fl64 (1 + br) = bt1"
    unfolding br_def bt1_def by (subst fl64_eqI [where k = "- 50"]) (simp_all add: rhe_def Let_def powr_neg_numeral)
  have s34: "fl64 (bp * bt1) = bsmax"
    unfolding bp_def bsmax_def bt1_def by (subst fl64_eqI [where k = "- 50"]) (simp_all add: rhe_def Let_def powr_neg_numeral)
  have s35: "fl64 (1 - br) = bt2"
    unfolding br_def bt2_def by (subst fl64_eqI [where k = "- 50"]) (simp_all add: rhe_def Let_def powr_neg_numeral)
  have s36: "fl64 (bp * bt2) = bsmin"
    unfolding bp_def bsmin_def bt2_def by (subst fl64_eqI [where k = "- 50"]) (simp_all add: rhe_def Let_def powr_neg_numeral)
  have s37: "fl64 (bsmax * bB) = bs1"
    unfolding bB_def bs1_def bsmax_def by (subst fl64_eqI [where k = "- 50"]) (simp_all add: rhe_def Let_def powr_neg_numeral)
  have s38: "fl64 (bs1 * bf) = bs2"
    unfolding bf_def bs1_def bs2_def by (subst fl64_eqI [where k = "- 50"]) (simp_all add: rhe_def Let_def powr_neg_numeral)
  have s39: "fl64 (bs2 / bE) = bS"
    unfolding bE_def bS_def bs2_def by (subst fl64_eqI [where k = "- 64"]) (simp_all add: rhe_def Let_def powr_neg_numeral)
  have m40: "calculate_settlement_f64 bE bL (load_case_factors_f64) bM 0 bV bB ''Crane Operation'' = Inr (bS, bsmax, bsmin, be)"
    by (rule settle_eval_linear [OF s21 s22 s23 s24 s25 s29 s26 s27 s30 s31 s32 s33 s34 s35 s36 s28 s37 s38 s39])
  have s41: "cV \<noteq> 0"
    unfolding cV_def by simp
  have s42: "cB \<noteq> 0"
    unfolding cB_def by simp
  have s43: "cE \<noteq> 0"
    unfolding cE_def by simp
  have s44: "fl64 (cM / cV) = ce"
    unfolding cM_def cV_def ce_def by (subst fl64_eqI [where k = "- 52"]) (simp_all add: rhe_def Let_def powr_neg_numeral)
  have s45: "fl64 (cB / 6) = cb6"
    unfolding cB_def cb6_def by (subst fl64_eqI [where k = "- 52"]) (simp_all add: rhe_def Let_def powr_neg_numeral)
  have s46: "fl64 (cB * cL) = cbl"
    unfolding cB_def cL_def cbl_def by (subst fl64_eqI [where k = "- 47"]) (simp_all add: rhe_def Let_def powr_neg_numeral)
  have s47: "cbl \<noteq> 0"
    unfolding cbl_def by simp
  have s48: "dict_get ([''During Assembly'' \<mapsto> 2296835809958953 / 2 ^ 51]) ''During Assembly'' 1 = cf"
    unfolding cf_def by (simp add: dict_get_def load_case_factors_f64_def fl64_decimals)
  have s49: "\<not> ce \<le> cb6"
    unfolding cb6_def ce_def by simp
  have s50: "fl64 (2 * cV) = cv2"
    unfolding cV_def cv2_def by (subst fl64_eqI [where k = "- 40"]) (simp_all add: rhe_def Let_def powr_neg_numeral)
  have s51: "fl64 (cv2 / cbl) = csmax"
    unfolding cbl_def csmax_def cv2_def by (subst fl64_eqI [where k = "- 46"]) (simp_all add: rhe_def Let_def powr_neg_numeral)
  have s52: "fl64 (csmax * cB) = cs1"
    unfolding cB_def cs1_def csmax_def by (subst fl64_eqI [where k = "- 43"]) (simp_all add: rhe_def Let_def powr_neg_numeral)
  have s53: "fl64 (cs1 * cf) = cs2"
    unfolding cf_def cs1_def cs2_def by (subst fl64_eqI [where k = "- 43"]) (simp_all add: rhe_def Let_def powr_neg_numeral)
  have s54: "fl64 (cs2 / cE) = cS"
    unfolding cE_def cS_def cs2_def by (subst fl64_eqI [where k = "- 57"]) (simp_all add: rhe_def Let_def powr_neg_numeral)
  have m55: "calculate_settlement_f64 cE cL ([''During Assembly'' \<mapsto> 2296835809958953 / 2 ^ 51]) cM 0 cV cB ''During Assembly'' = Inr (cS, csmax, 0, ce)"
    by (rule settle_eval_triangular [OF s41 s42 s43 s44 s45 s49 s46 s47 s50 s51 s48 s52 s53 s54])
  have s56: "dV \<noteq> 0"
    unfolding dV_def by simp
  have s57: "dB \<noteq> 0"
    unfolding dB_def by simp
  have s58: "dE \<noteq> 0"
    unfolding dE_def by simp
  have s59: "fl64 (dM / dV) = de"
    unfolding dM_def dV_def de_def by (subst fl64_eqI [where k = "- 52"]) (simp_all add: rhe_def Let_def powr_neg_numeral)
  have s60: "fl64 (dB / 6) = db6"
    unfolding dB_def db6_def by (subst fl64_eqI [where k = "- 52"]) (simp_all add: rhe_def Let_def powr_neg_numeral)
  have s61: "fl64 (dB * dL) = dbl"
    unfolding dB_def dL_def dbl_def by (subst fl64_eqI [where k = "- 47"]) (simp_all add: rhe_def Let_def powr_neg_numeral)
  have s62: "dbl \<noteq> 0"
    unfolding dbl_def by simp
  have s63: "dict_get ([''During Assembly'' \<mapsto> 4593671619917907 / 2 ^ 52]) ''During Assembly'' 1 = df"
    unfolding df_def by (simp add: dict_get_def load_case_factors_f64_def fl64_decimals)
  have s64: "\<not> de \<le> db6"
    unfolding db6_def de_def by simp
  have s65: "fl64 (2 * dV) = dv2"
    unfolding dV_def dv2_def by (subst fl64_eqI [where k = "- 40"]) (simp_all add: rhe_def Let_def powr_neg_numeral)
  have s66: "fl64 (dv2 / dbl) = dsmax"
    unfolding dbl_def dsmax_def dv2_def by (subst fl64_eqI [where k = "- 46"]) (simp_all add: rhe_def Let_def powr_neg_numeral)
  have s67: "fl64 (dsmax * dB) = ds1"
    unfolding dB_def ds1_def dsmax_def by (subst fl64_eqI [where k = "- 43"]) (simp_all add: rhe_def Let_def powr_neg_numeral)
  have s68: "fl64 (ds1 * df) = ds2"
    unfolding df_def ds1_def ds2_def by (subst fl64_eqI [where k = "- 43"]) (simp_all add: rhe_def Let_def powr_neg_numeral)
  have s69: "fl64 (ds2 / dE) = dS"
    unfolding dE_def dS_def ds2_def by (subst fl64_eqI [where k = "- 57"]) (simp_all add: rhe_def Let_def powr_neg_numeral)
  have m70: "calculate_settlement_f64 dE dL ([''During Assembly'' \<mapsto> 4593671619917907 / 2 ^ 52]) dM 0 dV dB ''During Assembly'' = Inr (dS, dsmax, 0, de)"
    by (rule settle_eval_triangular [OF s56 s57 s58 s59 s60 s64 s61 s62 s65 s66 s63 s67 s68 s69])
  have l0: "fl64 7.7 = 8669429282688205 / 2 ^ 50"
    by (subst fl64_eqI [where k = "- 50"]) (simp_all add: rhe_def Let_def powr_neg_numeral)
  have l1: "fl64 2705.2 = 2974398855459635 / 2 ^ 40"
    by (subst fl64_eqI [where k = "- 41"]) (simp_all add: rhe_def Let_def powr_neg_numeral)
  have x0: "dict_get load_case_factors_f64 ''Storm Front'' 1 < dict_get load_case_factors_f64 ''Crane Operation'' 1"
    by (simp add: dict_get_def load_case_factors_f64_def fl64_decimals)
  have x1: "\<not> (- 4703919738795935 / 2 ^ 64 :: real) < - 5764607523034235 / 2 ^ 64"
    by simp
  have x2: "(2296835809958953 / 2 ^ 51 :: real) < 4593671619917907 / 2 ^ 52"
    by simp
  show ?thesis
    unfolding l0 l1
    using m20 m40 m55 m70 x0 x1 x2
    unfolding aE_def aL_def aM_def aV_def aB_def af_def ae_def ab6_def abl_def ap_def ae6_def ar_def at1_def asmax_def at2_def asmin_def as1_def as2_def aS_def bE_def bL_def bM_def bV_def bB_def bf_def be_def bb6_def bbl_def bp_def be6_def br_def bt1_def bsmax_def bt2_def bsmin_def bs1_def bs2_def bS_def cE_def cL_def cM_def cV_def cB_def cf_def ce_def cb6_def cbl_def cv2_def csmax_def cs1_def cs2_def cS_def dE_def dL_def dM_def dV_def dB_def df_def de_def db6_def dbl_def dv2_def dsmax_def ds1_def ds2_def dS_def E_src_def
    by (intro conjI)
qed

text \<open>
  C8, amended: holding \<open>M\<close>, \<open>V\<close>, \<open>B\<close>, \<open>L\<close> and \<open>E\<close> fixed (\<open>V > 0\<close>, \<open>B, L, E > 0\<close>,
  doubles, \<open>B * L\<close> not rounding to zero), two correction factors \<open>f1 \<le> f2\<close> give the same
  pressures and eccentricity, and settlements ordered by the sign of the edge pressure:
  \<open>S1 \<le> S2\<close> when \<open>sigma_max \<ge> 0\<close>, which holds whenever the computed eccentricity
  satisfies \<open>6 e \<ge> -B\<close>, and \<open>S2 \<le> S1\<close> when \<open>sigma_max \<le> 0\<close>. The order is not strict.
\<close>

theorem settlement_monotone_f64:
  assumes "0 < V" "0 < B" "0 < L" "0 < E" "fl64 B = B" "fl64 (B * L) \<noteq> 0"
    and "dict_get factors_lo case_lo 1 \<le> dict_get factors_hi case_hi 1"
  shows "\<exists>S1 S2 sigma_max sigma_min e.
     calculate_settlement_f64 E L factors_lo M H V B case_lo = Inr (S1, sigma_max, sigma_min, e) \<and>
     calculate_settlement_f64 E L factors_hi M H V B case_hi = Inr (S2, sigma_max, sigma_min, e) \<and>
     e = fl64 (M / V) \<and>
     S1 = fl64 (fl64 (fl64 (sigma_max * B) * dict_get factors_lo case_lo 1) / E) \<and>
     S2 = fl64 (fl64 (fl64 (sigma_max * B) * dict_get factors_hi case_hi 1) / E) \<and>
     (0 \<le> sigma_max \<longrightarrow> S1 \<le> S2) \<and> (sigma_max \<le> 0 \<longrightarrow> S2 \<le> S1) \<and>
     (- B \<le> 6 * e \<longrightarrow> 0 \<le> sigma_max)"
proof -
  let ?e = "fl64 (M / V)"
  let ?p = "fl64 (V / fl64 (B * L))"
  let ?r = "fl64 (fl64 (6 * ?e) / B)"
  let ?smax = "if ?e \<le> fl64 (B / 6) then fl64 (?p * fl64 (1 + ?r))
               else fl64 (fl64 (2 * V) / fl64 (B * L))"
  have nz: "V \<noteq> 0" "B \<noteq> 0" "E \<noteq> 0" using assms by simp_all
  note r1 = calculate_settlement_f64_returns [OF nz(1,2) assms(6) nz(3), of factors_lo M H case_lo]
  note r2 = calculate_settlement_f64_returns [OF nz(1,2) assms(6) nz(3), of factors_hi M H case_hi]
  note mono = settlement_mono_factor [OF assms(2,4,7), of ?smax]
  have p: "0 \<le> ?p" using assms(1-3) by (intro mean_pressure_nonneg) simp_all
  have tri: "0 \<le> fl64 (fl64 (2 * V) / fl64 (B * L))"
  proof -
    have "0 \<le> fl64 (2 * V)" using assms(1) by (intro fl64_nonneg) simp
    moreover have "0 \<le> fl64 (B * L)" using assms(2,3) by (intro fl64_nonneg) simp
    ultimately show ?thesis by (intro fl64_nonneg) simp
  qed
  have pos: "0 \<le> ?smax" if "- B \<le> 6 * ?e"
  proof -
    have "- 1 \<le> ?r" using assms(2,5) that by (rule ratio_ge_m1)
    then have "0 \<le> fl64 (1 + ?r)" by (intro fl64_nonneg) simp
    with p have "0 \<le> fl64 (?p * fl64 (1 + ?r))" by (rule fl64_prod_nonneg)
    with tri show ?thesis by simp
  qed
  show ?thesis using r1 r2 mono pos by blast
qed

text \<open>
  An instance: the script's \<^verbatim>\<open>Crane Operation\<close> load on its default footing, under the
  factors of \<^verbatim>\<open>Storm Front\<close> and of \<^verbatim>\<open>Crane Operation\<close>.
\<close>

theorem settlement_monotone_f64_witness:
  "(0::real) < fl64 2975.2 \<and>
   (0::real) < fl64 7.7 \<and>
   0 < E_src \<and>
   fl64 (fl64 7.7) = fl64 7.7 \<and>
   fl64 (fl64 7.7 * fl64 7.7) \<noteq> 0 \<and>
   calculate_settlement_f64 E_src (fl64 7.7) load_case_factors_f64 5681 0 (fl64 2975.2) (fl64 7.7) ''Storm Front''
     = Inr (5679830359929247 / 2 ^ 57, 7062273154912663 / 2 ^ 46, 0, 4299702454136157 / 2 ^ 51) \<and>
   calculate_settlement_f64 E_src (fl64 7.7) load_case_factors_f64 5681 0 (fl64 2975.2) (fl64 7.7) ''Crane Operation''
     = Inr (6960576421481921 / 2 ^ 57, 7062273154912663 / 2 ^ 46, 0, 4299702454136157 / 2 ^ 51) \<and>
   dict_get load_case_factors_f64 ''Storm Front'' 1 \<le> dict_get load_case_factors_f64 ''Crane Operation'' 1 \<and>
   (5679830359929247 / 2 ^ 57 :: real) \<le> 6960576421481921 / 2 ^ 57"
proof -
  define aE :: real where "aE = 20000"
  define aL :: real where "aL = 8669429282688205 / 2 ^ 50"
  define aM :: real where "aM = 5681"
  define aV :: real where "aV = 3271266994959155 / 2 ^ 40"
  define aB :: real where "aB = 8669429282688205 / 2 ^ 50"
  define af :: real where "af = 2296835809958953 / 2 ^ 51"
  define ae :: real where "ae = 4299702454136157 / 2 ^ 51"
  define ab6 :: real where "ab6 = 5779619521792137 / 2 ^ 52"
  define abl :: real where "abl = 4172162842293699 / 2 ^ 46"
  define av2 :: real where "av2 = 3271266994959155 / 2 ^ 39"
  define asmax :: real where "asmax = 7062273154912663 / 2 ^ 46"
  define as1 :: real where "as1 = 3398718955801719 / 2 ^ 42"
  define as2 :: real where "as2 = 6933386669835507 / 2 ^ 43"
  define aS :: real where "aS = 5679830359929247 / 2 ^ 57"
  define bE :: real where "bE = 20000"
  define bL :: real where "bL = 8669429282688205 / 2 ^ 50"
  define bM :: real where "bM = 5681"
  define bV :: real where "bV = 3271266994959155 / 2 ^ 40"
  define bB :: real where "bB = 8669429282688205 / 2 ^ 50"
  define bf :: real where "bf = 5 / 2 ^ 2"
  define be :: real where "be = 4299702454136157 / 2 ^ 51"
  define bb6 :: real where "bb6 = 5779619521792137 / 2 ^ 52"
  define bbl :: real where "bbl = 4172162842293699 / 2 ^ 46"
  define bv2 :: real where "bv2 = 3271266994959155 / 2 ^ 39"
  define bsmax :: real where "bsmax = 7062273154912663 / 2 ^ 46"
  define bs1 :: real where "bs1 = 3398718955801719 / 2 ^ 42"
  define bs2 :: real where "bs2 = 4248398694752149 / 2 ^ 42"
  define bS :: real where "bS = 6960576421481921 / 2 ^ 57"
  have s1: "aV \<noteq> 0"
    unfolding aV_def by simp
  have s2: "aB \<noteq> 0"
    unfolding aB_def by simp
  have s3: "aE \<noteq> 0"
    unfolding aE_def by simp
  have s4: "fl64 (aM / aV) = ae"
    unfolding aM_def aV_def ae_def by (subst fl64_eqI [where k = "- 52"]) (simp_all add: rhe_def Let_def powr_neg_numeral)
  have s5: "fl64 (aB / 6) = ab6"
    unfolding aB_def ab6_def by (subst fl64_eqI [where k = "- 52"]) (simp_all add: rhe_def Let_def powr_neg_numeral)
  have s6: "fl64 (aB * aL) = abl"
    unfolding aB_def aL_def abl_def by (subst fl64_eqI [where k = "- 47"]) (simp_all add: rhe_def Let_def powr_neg_numeral)
  have s7: "abl \<noteq> 0"
    unfolding abl_def by simp
  have s8: "dict_get (load_case_factors_f64) ''Storm Front'' 1 = af"
    unfolding af_def by (simp add: dict_get_def load_case_factors_f64_def fl64_decimals)
  have s9: "\<not> ae \<le> ab6"
    unfolding ab6_def ae_def by simp
  have s10: "fl64 (2 * aV) = av2"
    unfolding aV_def av2_def by (subst fl64_eqI [where k = "- 40"]) (simp_all add: rhe_def Let_def powr_neg_numeral)
  have s11: "fl64 (av2 / abl) = asmax"
    unfolding abl_def asmax_def av2_def by (subst fl64_eqI [where k = "- 46"]) (simp_all add: rhe_def Let_def powr_neg_numeral)
  have s12: "fl64 (asmax * aB) = as1"
    unfolding aB_def as1_def asmax_def by (subst fl64_eqI [where k = "- 43"]) (simp_all add: rhe_def Let_def powr_neg_numeral)
  have s13: "fl64 (as1 * af) = as2"
    unfolding af_def as1_def as2_def by (subst fl64_eqI [where k = "- 43"]) (simp_all add: rhe_def Let_def powr_neg_numeral)
  have s14: "fl64 (as2 / aE) = aS"
    unfolding aE_def aS_def as2_def by (subst fl64_eqI [where k = "- 57"]) (simp_all add: rhe_def Let_def powr_neg_numeral)
  have m15: "calculate_settlement_f64 aE aL (load_case_factors_f64) aM 0 aV aB ''Storm Front'' = Inr (aS, asmax, 0, ae)"
    by (rule settle_eval_triangular [OF s1 s2 s3 s4 s5 s9 s6 s7 s10 s11 s8 s12 s13 s14])
  have s16: "bV \<noteq> 0"
    unfolding bV_def by simp
  have s17: "bB \<noteq> 0"
    unfolding bB_def by simp
  have s18: "bE \<noteq> 0"
    unfolding bE_def by simp
  have s19: "fl64 (bM / bV) = be"
    unfolding bM_def bV_def be_def by (subst fl64_eqI [where k = "- 52"]) (simp_all add: rhe_def Let_def powr_neg_numeral)
  have s20: "fl64 (bB / 6) = bb6"
    unfolding bB_def bb6_def by (subst fl64_eqI [where k = "- 52"]) (simp_all add: rhe_def Let_def powr_neg_numeral)
  have s21: "fl64 (bB * bL) = bbl"
    unfolding bB_def bL_def bbl_def by (subst fl64_eqI [where k = "- 47"]) (simp_all add: rhe_def Let_def powr_neg_numeral)
  have s22: "bbl \<noteq> 0"
    unfolding bbl_def by simp
  have s23: "dict_get (load_case_factors_f64) ''Crane Operation'' 1 = bf"
    unfolding bf_def by (simp add: dict_get_def load_case_factors_f64_def fl64_decimals)
  have s24: "\<not> be \<le> bb6"
    unfolding bb6_def be_def by simp
  have s25: "fl64 (2 * bV) = bv2"
    unfolding bV_def bv2_def by (subst fl64_eqI [where k = "- 40"]) (simp_all add: rhe_def Let_def powr_neg_numeral)
  have s26: "fl64 (bv2 / bbl) = bsmax"
    unfolding bbl_def bsmax_def bv2_def by (subst fl64_eqI [where k = "- 46"]) (simp_all add: rhe_def Let_def powr_neg_numeral)
  have s27: "fl64 (bsmax * bB) = bs1"
    unfolding bB_def bs1_def bsmax_def by (subst fl64_eqI [where k = "- 43"]) (simp_all add: rhe_def Let_def powr_neg_numeral)
  have s28: "fl64 (bs1 * bf) = bs2"
    unfolding bf_def bs1_def bs2_def by (subst fl64_eqI [where k = "- 43"]) (simp_all add: rhe_def Let_def powr_neg_numeral)
  have s29: "fl64 (bs2 / bE) = bS"
    unfolding bE_def bS_def bs2_def by (subst fl64_eqI [where k = "- 57"]) (simp_all add: rhe_def Let_def powr_neg_numeral)
  have m30: "calculate_settlement_f64 bE bL (load_case_factors_f64) bM 0 bV bB ''Crane Operation'' = Inr (bS, bsmax, 0, be)"
    by (rule settle_eval_triangular [OF s16 s17 s18 s19 s20 s24 s21 s22 s25 s26 s23 s27 s28 s29])
  have l0: "fl64 7.7 = 8669429282688205 / 2 ^ 50"
    by (subst fl64_eqI [where k = "- 50"]) (simp_all add: rhe_def Let_def powr_neg_numeral)
  have l1: "fl64 2975.2 = 3271266994959155 / 2 ^ 40"
    by (subst fl64_eqI [where k = "- 41"]) (simp_all add: rhe_def Let_def powr_neg_numeral)
  have g0: "0 < aV"
    unfolding aV_def by simp
  have g1: "0 < aB"
    unfolding aB_def by simp
  have g2: "0 < aL"
    unfolding aL_def by simp
  have g3: "0 < aE"
    unfolding aE_def by simp
  have g4: "fl64 aB = aB"
    unfolding aB_def by (subst fl64_eqI [where k = "- 50"]) (simp_all add: rhe_def Let_def powr_neg_numeral)
  have g5: "fl64 (aB * aL) \<noteq> 0"
    by (simp only: s6 s7 not_False_eq_True)
  have x0: "dict_get load_case_factors_f64 ''Storm Front'' 1 \<le> dict_get load_case_factors_f64 ''Crane Operation'' 1"
    by (simp add: dict_get_def load_case_factors_f64_def fl64_decimals)
  have x1: "(5679830359929247 / 2 ^ 57 :: real) \<le> 6960576421481921 / 2 ^ 57"
    by simp
  show ?thesis
    unfolding l0 l1
    using g0 g1 g2 g3 g4 g5 m15 m30 x0 x1 settlement_monotone_f64 [where E = aE and L = aL and M = aM and H = 0 and V = aV and B = aB and factors_lo = load_case_factors_f64 and case_lo = "''Storm Front''" and factors_hi = load_case_factors_f64 and case_hi = "''Crane Operation''", OF g0 g1 g2 g3 g4 g5 x0]
    unfolding aE_def aL_def aM_def aV_def aB_def af_def ae_def ab6_def abl_def av2_def asmax_def as1_def as2_def aS_def bE_def bL_def bM_def bV_def bB_def bf_def be_def bb6_def bbl_def bv2_def bsmax_def bs1_def bs2_def bS_def E_src_def
    by (intro conjI)
qed

subsection \<open>Rotation angle\<close>

text \<open>
  C5, as stated: for every \<open>M\<close>, \<open>B > 0\<close>, \<open>E > 0\<close> and factor \<open>f > 0\<close> the angle lies strictly
  inside (-90, 90), has the sign of \<open>M\<close> and is 0 when \<open>M = 0\<close>. In doubles the sign is lost
  on underflow and the bound is reached: with \<open>B = 1\<close> and the \<^verbatim>\<open>Crane Operation\<close> factor
  the divisor is 25000; for the smallest positive double \<open>M = 2^-1074\<close> the quotient rounds
  to 0 and the angle returned is 0 although \<open>M > 0\<close>, and for \<open>M = 25000 * 2^70\<close> the
  angle returned is exactly 90.
\<close>

theorem rotation_angle_sign_counterexample:
  "(0::real) < 1 \<and> 0 < E_src \<and>
   0 < dict_get load_case_factors_f64 ''Crane Operation'' 1 \<and>
   (0::real) < 1 / 2 ^ 1074 \<and>
   calculate_rotation_angle_f64 E_src load_case_factors_f64 (1 / 2 ^ 1074) 1 ''Crane Operation''
     = Inr 0 \<and>
   calculate_rotation_angle_f64 E_src load_case_factors_f64 (25000 * 2 ^ 70) 1 ''Crane Operation''
     = Inr 90 \<and>
   \<not> (90::real) < 90"
proof -
  define M :: real where "M = 1 / 2 ^ 1074"
  define N :: real where "N = 25000 * 2 ^ 70"
  define d :: real where "d = 25000"
  define t :: real where "t = 2 ^ 70"
  have z: "fl64 (M / d) = 0"
    unfolding M_def d_def
    by (subst fl64_subnormal) (simp_all add: rhe_def Let_def powr_neg_numeral)
  have h: "fl64 (N / d) = t"
    unfolding N_def d_def t_def
    by (subst fl64_eqI [where k = "18"]) (simp_all add: rhe_def Let_def powr_neg_numeral)
  have d: "d \<noteq> 0" unfolding d_def by simp
  have "calculate_rotation_angle_f64 E_src load_case_factors_f64 M 1 ''Crane Operation''
      = Inr (degrees_f64 (arctan_f64 0))"
    using crane_divisor_f64(1) crane_divisor_f64(2) crane_divisor_f64(3) [folded d_def] d z
    by (rule rotate_eval)
  then have small: "calculate_rotation_angle_f64 E_src load_case_factors_f64 M 1 ''Crane Operation''
      = Inr 0"
    by (simp only: arctan_f64_0 degrees_f64_0)
  have "calculate_rotation_angle_f64 E_src load_case_factors_f64 N 1 ''Crane Operation''
      = Inr (degrees_f64 (arctan_f64 t))"
    using crane_divisor_f64(1) crane_divisor_f64(2) crane_divisor_f64(3) [folded d_def] d h
    by (rule rotate_eval)
  moreover have "arctan_f64 t = PIO2_f64"
    unfolding t_def by (rule arctan_f64_huge) simp
  ultimately have huge: "calculate_rotation_angle_f64 E_src load_case_factors_f64 N 1
      ''Crane Operation'' = Inr 90"
    by (simp only: degrees_f64_quarter_turn)
  have pos: "(0::real) < 1" "0 < E_src"
    "0 < dict_get load_case_factors_f64 ''Crane Operation'' 1" "0 < M"
    unfolding M_def by (simp_all add: E_src_def crane_divisor_f64(1))
  have "\<not> (90::real) < 90" by simp
  with pos small huge show ?thesis unfolding M_def N_def by (intro conjI)
qed

text \<open>
  C5, amended: for every \<open>M\<close>, \<open>B > 0\<close>, \<open>E > 0\<close> and correction factor \<open>f > 0\<close> (the divisor
  \<open>B E f\<close> not rounding to zero), the function returns \<open>alpha\<close>, the arc tangent of
  \<open>M / (B E f)\<close> converted from radians to degrees, all in doubles; \<open>alpha\<close> lies in the
  closed interval from -90 to 90, \<open>alpha \<ge> 0\<close> when \<open>M \<ge> 0\<close>, \<open>alpha \<le> 0\<close> when \<open>M \<le> 0\<close>,
  and \<open>alpha = 0\<close> when \<open>M = 0\<close>.
\<close>

theorem calculate_rotation_angle_f64_range:
  assumes "0 < B" "0 < E" "0 < dict_get load_case_factors case_name 1"
    and "fl64 (fl64 (B * E) * dict_get load_case_factors case_name 1) \<noteq> 0"
  shows "\<exists>alpha. calculate_rotation_angle_f64 E load_case_factors M B case_name = Inr alpha \<and>
     alpha = degrees_f64 (arctan_f64
       (fl64 (M / fl64 (fl64 (B * E) * dict_get load_case_factors case_name 1)))) \<and>
     - 90 \<le> alpha \<and> alpha \<le> 90 \<and>
     (0 \<le> M \<longrightarrow> 0 \<le> alpha) \<and> (M \<le> 0 \<longrightarrow> alpha \<le> 0) \<and> (M = 0 \<longrightarrow> alpha = 0)"
proof -
  let ?f = "dict_get load_case_factors case_name 1"
  let ?d = "fl64 (fl64 (B * E) * ?f)"
  let ?t = "fl64 (M / ?d)"
  let ?alpha = "degrees_f64 (arctan_f64 ?t)"
  have r: "calculate_rotation_angle_f64 E load_case_factors M B case_name = Inr ?alpha"
    using assms(4) by (simp add: calculate_rotation_angle_f64_def fdiv_def fmul_def bind_err_def Let_def)
  have "0 \<le> fl64 (B * E)" using assms(1,2) by (intro fl64_nonneg) simp
  then have "0 \<le> fl64 (B * E) * ?f" using assms(3) by (intro mult_nonneg_nonneg) simp_all
  then have "0 \<le> ?d" by (rule fl64_nonneg)
  with assms(4) have d: "0 < ?d" by simp
  have hi: "?alpha \<le> 90"
    using degrees_f64_mono [of "arctan_f64 ?t" PIO2_f64] arctan_f64_bounds [of ?t]
    by (simp add: degrees_f64_quarter_turn)
  have lo: "- 90 \<le> ?alpha"
    using degrees_f64_mono [of "- PIO2_f64" "arctan_f64 ?t"] arctan_f64_bounds [of ?t]
    by (simp add: degrees_f64_minus degrees_f64_quarter_turn)
  have pos: "0 \<le> ?alpha" if "0 \<le> M"
  proof -
    have "0 \<le> ?t" using that d by (intro fl64_nonneg) simp
    then have "0 \<le> arctan_f64 ?t" by (rule arctan_f64_nonneg)
    then show ?thesis using degrees_f64_mono [of 0 "arctan_f64 ?t"] by (simp add: degrees_f64_0)
  qed
  have neg: "?alpha \<le> 0" if "M \<le> 0"
  proof -
    have "?t \<le> 0" using that d by (intro fl64_nonpos) (simp add: divide_le_0_iff)
    then have "arctan_f64 ?t \<le> 0" by (rule arctan_f64_nonpos)
    then show ?thesis using degrees_f64_mono [of "arctan_f64 ?t" 0] by (simp add: degrees_f64_0)
  qed
  have zero: "?alpha = 0" if "M = 0"
    using pos neg that by fastforce
  show ?thesis using r lo hi pos neg zero by blast
qed

text \<open>
  Instances at the script's constants, \<open>B = 1\<close>: \<open>M = 0\<close>, and the moment of the first load
  case.
\<close>

theorem calculate_rotation_angle_f64_range_witness:
  "(0::real) < 1 \<and> 0 < E_src \<and> 0 < dict_get load_case_factors_f64 ''Crane Operation'' 1 \<and>
   fl64 (fl64 (1 * E_src) * dict_get load_case_factors_f64 ''Crane Operation'' 1) \<noteq> 0 \<and>
   calculate_rotation_angle_f64 E_src load_case_factors_f64 0 1 ''Crane Operation'' = Inr 0 \<and>
   (\<exists>alpha. calculate_rotation_angle_f64 E_src load_case_factors_f64 5681 1 ''Crane Operation''
       = Inr alpha \<and> 0 \<le> alpha \<and> alpha \<le> 90)"
proof -
  have h: "(0::real) < 1" "0 < E_src" "0 < dict_get load_case_factors_f64 ''Crane Operation'' 1"
    "fl64 (fl64 (1 * E_src) * dict_get load_case_factors_f64 ''Crane Operation'' 1) \<noteq> 0"
    unfolding crane_divisor_f64 by (simp_all add: E_src_def)
  show ?thesis
    using h calculate_rotation_angle_f64_range [OF h, of 0]
      calculate_rotation_angle_f64_range [OF h, of 5681]
    by auto
qed

text \<open>
  C6. For every input where \<open>E * f_correction = 0\<close> (\<open>E = 0\<close> or a correction factor 0) and
  \<open>B \<noteq> 0\<close>, \<^verbatim>\<open>calculate_rotation_angle\<close> fails with a division-by-zero error and
  returns no angle: the divisor \<open>B * E * f_correction\<close> is a Python float, and Python's
  float division raises \<^verbatim>\<open>ZeroDivisionError\<close>.
\<close>

theorem calculate_rotation_angle_zero_divisor:
  "E * dict_get load_case_factors case_name 1 = 0 \<Longrightarrow> B \<noteq> 0 \<Longrightarrow>
     calculate_rotation_angle E load_case_factors M B case_name = Inl ZeroDivisionError"
  by (simp add: calculate_rotation_angle_def truediv_def bind_err_def Let_def mult.assoc)

theorem calculate_rotation_angle_zero_divisor_witness:
  "(0::real) * dict_get load_case_factors_src ''Crane Operation'' 1 = 0 \<and>
   E_src * dict_get (load_case_factors_src(''Crane Operation'' \<mapsto> 0)) ''Crane Operation'' 1 = 0 \<and>
   (7.7::real) \<noteq> 0 \<and>
   calculate_rotation_angle 0 load_case_factors_src 5681.0 7.7 ''Crane Operation''
     = Inl ZeroDivisionError \<and>
   calculate_rotation_angle E_src (load_case_factors_src(''Crane Operation'' \<mapsto> 0)) 5681.0 7.7
     ''Crane Operation'' = Inl ZeroDivisionError"
proof -
  have h: "(0::real) * dict_get load_case_factors_src ''Crane Operation'' 1 = 0"
    "E_src * dict_get (load_case_factors_src(''Crane Operation'' \<mapsto> 0)) ''Crane Operation'' 1 = 0"
    "(7.7::real) \<noteq> 0"
    by (simp_all add: dict_get_def)
  show ?thesis
    using h
      calculate_rotation_angle_zero_divisor [OF h(1) h(3), of "5681.0"]
      calculate_rotation_angle_zero_divisor [OF h(2) h(3), of "5681.0"]
    by simp
qed

subsection \<open>Tipping criterion\<close>

text \<open>
  C3. For every eccentricity \<open>e\<close> and every width \<open>B > 0\<close>, \<^verbatim>\<open>check_tipping(e, B)\<close> returns
  the risk verdict if and only if \<open>e > B/3\<close>; the inequality is strict, so at \<open>e = B/3\<close>
  exactly the verdict is no risk.
\<close>

theorem check_tipping_strict:
  "0 < B \<Longrightarrow>
     (check_tipping e B = ''Tipping Risk: YES'' \<longleftrightarrow> e > B / 3) \<and>
     (check_tipping e B = ''Tipping Risk: NO'' \<longleftrightarrow> \<not> e > B / 3) \<and>
     check_tipping (B / 3) B = ''Tipping Risk: NO''"
  by (simp add: check_tipping_def)

theorem check_tipping_strict_witness:
  "(0::real) < 3 \<and>
   check_tipping 2 3 = ''Tipping Risk: YES'' \<and>
   check_tipping 1 3 = ''Tipping Risk: NO'' \<and>
   check_tipping (1 / 2) 3 = ''Tipping Risk: NO''"
proof -
  have h: "(0::real) < 3" by simp
  show ?thesis
    using h check_tipping_strict [OF h, of 2] check_tipping_strict [OF h, of "1 / 2"]
    by simp
qed

subsection \<open>The crane-operation scenario\<close>

text \<open>
  C9, as stated: for \<open>L = B = 7.7\<close>, \<open>E = 20000\<close>, case \<^verbatim>\<open>Crane Operation\<close> with
  \<open>M = 5681.0\<close>, \<open>V = 2975.2\<close> and factor 1.25, the triangular branch gives
  \<open>sigma_max\<close> about 100.35 and \<open>S\<close> about 0.04827. The branch and the formulas are the
  code's, the decimals are not: the values returned are \<open>595040/5929 = 100.3609...\<close> and
  \<open>286363/5929000 = 0.0482987...\<close>, each more than one unit of the last digit shown away
  from the stated number, so that neither rounding nor truncation gives it.
\<close>

theorem crane_operation_values_counterexample:
  "calculate_settlement E_src 7.7 load_case_factors_src 5681.0 65.0 2975.2 7.7 ''Crane Operation''
     = Inr (286363 / 5929000, 595040 / 5929, 0, 28405 / 14876) \<and>
   \<not> \<bar>(595040 / 5929 :: real) - 100.35\<bar> < 0.01 \<and>
   \<not> \<bar>(286363 / 5929000 :: real) - 0.04827\<bar> < 0.00001 \<and>
   (100.36 :: real) < 595040 / 5929 \<and> (0.04829 :: real) < 286363 / 5929000"
  by (simp add: eval_defs)

text \<open>
  C9, amended: for the same input, \<open>e = 5681/2975.2\<close> (1.9094...) exceeds \<open>B/6\<close>
  (1.2833...), the triangular branch is taken, \<open>sigma_max = 2 * 2975.2 / (7.7 * 7.7)\<close>,
  which is 100.36 to two decimals, \<open>sigma_min = 0\<close>, and
  \<open>S = (sigma_max * 7.7 * 1.25) / 20000\<close>, which is 0.04830 to five decimals.
\<close>

theorem crane_operation_scenario:
  "\<exists>S sigma_max sigma_min e.
     calculate_settlement E_src 7.7 load_case_factors_src 5681.0 65.0 2975.2 7.7 ''Crane Operation''
       = Inr (S, sigma_max, sigma_min, e) \<and>
     dict_get load_case_factors_src ''Crane Operation'' 1 = 1.25 \<and>
     e = 5681 / 2975.2 \<and> \<bar>e - 1.9094\<bar> < 0.0001 \<and>
     \<bar>7.7 / 6 - 1.2833\<bar> < (0.0001::real) \<and> e > 7.7 / 6 \<and>
     sigma_max = 2 * 2975.2 / (7.7 * 7.7) \<and> \<bar>sigma_max - 100.36\<bar> < 0.005 \<and>
     sigma_min = 0 \<and>
     S = sigma_max * 7.7 * 1.25 / 20000 \<and> \<bar>S - 0.04830\<bar> < 0.000005"
proof -
  let ?e = "5681 / 2975.2 :: real"
  let ?smax = "2 * 2975.2 / (7.7 * 7.7) :: real"
  let ?S = "?smax * 7.7 * 1.25 / 20000"
  have r: "calculate_settlement E_src 7.7 load_case_factors_src 5681.0 65.0 2975.2 7.7
      ''Crane Operation'' = Inr (?S, ?smax, 0, ?e)"
    by (simp add: eval_defs)
  have f: "dict_get load_case_factors_src ''Crane Operation'' 1 = 1.25"
    by (simp add: dict_get_def load_case_factors_src_def)
  have e: "\<bar>?e - 1.9094\<bar> < 0.0001" "\<bar>7.7 / 6 - 1.2833\<bar> < (0.0001::real)" "?e > 7.7 / 6"
    by simp_all
  have s: "\<bar>?smax - 100.36\<bar> < 0.005" "\<bar>?S - 0.04830\<bar> < 0.000005"
    by simp_all
  show ?thesis using r f e s by blast
qed

subsection \<open>Input validation in the calculation loop\<close>

text \<open>
  C7, as stated: whenever the inputs contain non-positive geometry or a load case with
  \<open>V = 0\<close>, the run fails with a validation error before any load case is processed, with
  no partial per-case results. The loop has no validation step: with \<open>V = 0\<close> in the
  second of two load cases it raises \<^verbatim>\<open>ZeroDivisionError\<close> only when it reaches that
  case, after the first case has been computed and appended to the accumulators.
\<close>

theorem run_calculations_no_validation_counterexample:
  "snd (run_calculations E_src load_case_factors_src 7.7 7.7 1.4
     [(''Crane Operation'', [5681.0, 65.0, 2975.2]), (''Storm Rear'', [6380.0, 150.0, 0])])
     = Some ZeroDivisionError \<and>
   settlement_values (fst (run_calculations E_src load_case_factors_src 7.7 7.7 1.4
     [(''Crane Operation'', [5681.0, 65.0, 2975.2]), (''Storm Rear'', [6380.0, 150.0, 0])]))
     = [2 * 2975.2 / (7.7 * 7.7) * 7.7 * 1.25 / 20000] \<and>
   eccentricity_values (fst (run_calculations E_src load_case_factors_src 7.7 7.7 1.4
     [(''Crane Operation'', [5681.0, 65.0, 2975.2]), (''Storm Rear'', [6380.0, 150.0, 0])]))
     = [5681 / 2975.2] \<and>
   map fst (results (fst (run_calculations E_src load_case_factors_src 7.7 7.7 1.4
     [(''Crane Operation'', [5681.0, 65.0, 2975.2]), (''Storm Rear'', [6380.0, 150.0, 0])])))
     = [''Crane Operation'']"
  by (simp add: run_defs eval_defs)

text \<open>
  C7, amended: the run validates nothing up front, and the depth \<open>H\<close> is never read. If
  \<open>B * L = 0\<close>, the first load case raises \<^verbatim>\<open>ZeroDivisionError\<close> and nothing has been
  appended. With \<open>B\<close>, \<open>L\<close> and \<open>E\<close> non-zero, the load cases are processed in order: every
  case before the first one with \<open>V = 0\<close> (each with three values, a non-zero \<open>V\<close> and a
  non-zero correction factor) is fully computed, and the values appended for it are
  exactly the \<open>S\<close>, \<open>e\<close>, \<open>alpha\<close> and result line that \<^verbatim>\<open>calculate_settlement\<close>,
  \<^verbatim>\<open>check_tipping\<close> and \<^verbatim>\<open>calculate_rotation_angle\<close> return for it; the first case with
  \<open>V = 0\<close> stops the run with \<^verbatim>\<open>ZeroDivisionError\<close>, and that case and the later ones
  add nothing.
\<close>

theorem run_calculations_stops_at_zero_V:
  "(B * L = 0 \<longrightarrow>
      run_calculations E load_case_factors L B H ((c, [M, H', V]) # rest)
        = (init_state, Some ZeroDivisionError)) \<and>
   (B \<noteq> 0 \<and> L \<noteq> 0 \<and> E \<noteq> 0 \<and> list_all (computable_case load_case_factors) pre \<longrightarrow>
      (\<exists>st'. run_calculations E load_case_factors L B H pre = (st', None) \<and>
         run_calculations E load_case_factors L B H (pre @ (c, [M, H', 0]) # post)
           = (st', Some ZeroDivisionError) \<and>
         length (settlement_values st') = length pre \<and>
         length (eccentricity_values st') = length pre \<and>
         length (rotation_values st') = length pre \<and>
         length (results st') = length pre \<and>
         (\<forall>i<length pre. \<exists>ci Mi Hi Vi S sigma_max sigma_min e alpha.
            pre ! i = (ci, [Mi, Hi, Vi]) \<and>
            calculate_settlement E L load_case_factors Mi Hi Vi B ci
              = Inr (S, sigma_max, sigma_min, e) \<and>
            calculate_rotation_angle E load_case_factors Mi B ci = Inr alpha \<and>
            settlement_values st' ! i = S \<and>
            eccentricity_values st' ! i = e \<and>
            rotation_values st' ! i = alpha \<and>
            results st' ! i = (ci, S, sigma_max, check_tipping e B, alpha))))"
proof (intro conjI impI)
  assume "B * L = 0"
  then show "run_calculations E load_case_factors L B H ((c, [M, H', V]) # rest)
      = (init_state, Some ZeroDivisionError)"
    by (simp add: run_calculations_def loop_body_geometry_zero)
next
  assume a: "B \<noteq> 0 \<and> L \<noteq> 0 \<and> E \<noteq> 0 \<and> list_all (computable_case load_case_factors) pre"
  then have nz: "B \<noteq> 0" "L \<noteq> 0" "E \<noteq> 0"
    and pre: "list_all (computable_case load_case_factors) pre" by simp_all
  let ?row = "\<lambda>Ss es as ls i. \<exists>ci Mi Hi Vi S sigma_max sigma_min e alpha.
            pre ! i = (ci, [Mi, Hi, Vi]) \<and>
            calculate_settlement E L load_case_factors Mi Hi Vi B ci
              = Inr (S, sigma_max, sigma_min, e) \<and>
            calculate_rotation_angle E load_case_factors Mi B ci = Inr alpha \<and>
            Ss ! i = S \<and> es ! i = e \<and> as ! i = alpha \<and>
            ls ! i = (ci, S, sigma_max, check_tipping e B, alpha)"
  from run_loop_rows [OF nz pre, of init_state "(c, [M, H', 0]) # post"]
  obtain st' Ss es as ls where
    p: "run_loop E L load_case_factors B init_state pre = (st', None)"
      "run_loop E L load_case_factors B init_state (pre @ (c, [M, H', 0]) # post) =
         run_loop E L load_case_factors B st' ((c, [M, H', 0]) # post)"
    and acc: "settlement_values st' = settlement_values init_state @ Ss"
      "eccentricity_values st' = eccentricity_values init_state @ es"
      "rotation_values st' = rotation_values init_state @ as"
      "results st' = results init_state @ ls"
    and len: "length Ss = length pre" "length es = length pre"
      "length as = length pre" "length ls = length pre"
    and rows: "\<forall>i<length pre. ?row Ss es as ls i"
    by blast
  have eq: "settlement_values st' = Ss" "eccentricity_values st' = es"
    "rotation_values st' = as" "results st' = ls"
    using acc by (simp_all add: init_state_def)
  have stop: "run_loop E L load_case_factors B st' ((c, [M, H', 0]) # post)
      = (st', Some ZeroDivisionError)"
    by (simp add: loop_body_zero_V)
  have r1: "run_calculations E load_case_factors L B H pre = (st', None)"
    by (simp add: run_calculations_def p(1))
  have r2: "run_calculations E load_case_factors L B H (pre @ (c, [M, H', 0]) # post)
       = (st', Some ZeroDivisionError)"
    by (simp only: run_calculations_def p(2) stop)
  show "\<exists>st'. run_calculations E load_case_factors L B H pre = (st', None) \<and>
         run_calculations E load_case_factors L B H (pre @ (c, [M, H', 0]) # post)
           = (st', Some ZeroDivisionError) \<and>
         length (settlement_values st') = length pre \<and>
         length (eccentricity_values st') = length pre \<and>
         length (rotation_values st') = length pre \<and>
         length (results st') = length pre \<and>
         (\<forall>i<length pre. \<exists>ci Mi Hi Vi S sigma_max sigma_min e alpha.
            pre ! i = (ci, [Mi, Hi, Vi]) \<and>
            calculate_settlement E L load_case_factors Mi Hi Vi B ci
              = Inr (S, sigma_max, sigma_min, e) \<and>
            calculate_rotation_angle E load_case_factors Mi B ci = Inr alpha \<and>
            settlement_values st' ! i = S \<and>
            eccentricity_values st' ! i = e \<and>
            rotation_values st' ! i = alpha \<and>
            results st' ! i = (ci, S, sigma_max, check_tipping e B, alpha))"
    using r1 r2 len rows unfolding eq [symmetric] by blast
qed

text \<open>
  Instances: the script's four load cases on a footing of width 0, and on its default
  footing followed by a fifth case with \<open>V = 0\<close>.
\<close>

theorem run_calculations_stops_at_zero_V_witness:
  "(0::real) * 7.7 = 0 \<and>
   run_calculations E_src load_case_factors_src 7.7 0 1.4 loads_src
     = (init_state, Some ZeroDivisionError) \<and>
   (7.7::real) \<noteq> 0 \<and> E_src \<noteq> 0 \<and>
   list_all (computable_case load_case_factors_src) loads_src \<and>
   snd (run_calculations E_src load_case_factors_src 7.7 7.7 1.4 loads_src) = None \<and>
   snd (run_calculations E_src load_case_factors_src 7.7 7.7 1.4
          (loads_src @ [(''Empty Site'', [100.0, 0.0, 0.0])])) = Some ZeroDivisionError \<and>
   settlement_values (fst (run_calculations E_src load_case_factors_src 7.7 7.7 1.4
          (loads_src @ [(''Empty Site'', [100.0, 0.0, 0.0])]))) =
     [2 * 2975.2 / (7.7 * 7.7) * 7.7 * 1.25 / 20000, 2 * 2925.2 / (7.7 * 7.7) * 7.7 * 1.05 / 20000,
      2 * 2925.2 / (7.7 * 7.7) * 7.7 * 1.02 / 20000, 2 * 2705.2 / (7.7 * 7.7) * 7.7 * 1.3 / 20000]"
proof -
  have h: "(0::real) * 7.7 = 0" "(7.7::real) \<noteq> 0" "E_src \<noteq> 0"
    "list_all (computable_case load_case_factors_src) loads_src"
    by (simp_all add: E_src_def loads_src_def load_case_factors_src_def dict_get_def)
  note t = run_calculations_stops_at_zero_V [where B = 0 and L = "7.7" and E = E_src
      and load_case_factors = load_case_factors_src and H = "1.4"
      and c = "''Crane Operation''" and M = "5681.0" and H' = "65.0" and V = "2975.2"
      and rest = "tl loads_src"]
  note u = run_calculations_stops_at_zero_V [where B = "7.7" and L = "7.7" and E = E_src
      and load_case_factors = load_case_factors_src and H = "1.4" and pre = loads_src
      and c = "''Empty Site''" and M = "100.0" and H' = "0.0" and post = "[]"]
  have zero: "run_calculations E_src load_case_factors_src 7.7 0 1.4 loads_src
     = (init_state, Some ZeroDivisionError)"
    using t h(1) by (simp add: loads_src_def)
  from u h obtain st' where
    "run_calculations E_src load_case_factors_src 7.7 7.7 1.4 loads_src = (st', None)"
    "run_calculations E_src load_case_factors_src 7.7 7.7 1.4
          (loads_src @ [(''Empty Site'', [100.0, 0.0, 0])]) = (st', Some ZeroDivisionError)"
    by blast
  then have run: "snd (run_calculations E_src load_case_factors_src 7.7 7.7 1.4 loads_src) = None"
    "snd (run_calculations E_src load_case_factors_src 7.7 7.7 1.4
          (loads_src @ [(''Empty Site'', [100.0, 0.0, 0.0])])) = Some ZeroDivisionError"
    by simp_all
  have vals: "settlement_values (fst (run_calculations E_src load_case_factors_src 7.7 7.7 1.4
          (loads_src @ [(''Empty Site'', [100.0, 0.0, 0.0])]))) =
     [2 * 2975.2 / (7.7 * 7.7) * 7.7 * 1.25 / 20000, 2 * 2925.2 / (7.7 * 7.7) * 7.7 * 1.05 / 20000,
      2 * 2925.2 / (7.7 * 7.7) * 7.7 * 1.02 / 20000, 2 * 2705.2 / (7.7 * 7.7) * 7.7 * 1.3 / 20000]"
    by (simp add: run_defs eval_defs)
  show ?thesis using h zero run vals by (intro conjI)
qed

end
